theory Spec2Isabelle
  imports Complex_Main "HOL-Library.Multiset" "HOL-Library.Monad_Syntax"
begin

section \<open>The final measurement script (scripts/measure-final.ts)\<close>

text \<open>
  The script validates that every framework variant has been built, runs one measurement
  subprocess per framework, collects what each subprocess prints as JSON, and writes three
  report files. The embedding follows the script function by function.

  The script casts the parsed output of a subprocess to \<open>AggregatedStats[]\<close> without
  checking it, so the embedding works on JavaScript values as they are at run time: a
  property read of \<open>null\<close> or \<open>undefined\<close> and a call of \<open>toFixed\<close> on a value that is not
  a number throw a \<open>TypeError\<close>, which is a result \<open>None\<close> of the function that raises it.
  Numbers are the exact values of the doubles (\<open>rat\<close>; infinities do not occur), strings
  are byte lists (UTF-8), and everything the script asks of its surroundings is read from an
  explicit environment record.
\<close>

subsection \<open>JavaScript values\<close>

text \<open>What \<open>JSON.parse\<close> returns, and \<open>undefined\<close>. An object lists each of its keys once.\<close>

datatype jsval =
  JUndefined
| JNull
| JBool bool
| JNum rat
| JStr string
| JArr "jsval list"
| JObj "(string \<times> jsval) list"

text \<open>The result of an arithmetic operator.\<close>

datatype number = NaN | Fin rat

subsection \<open>The interfaces the script declares\<close>

record StatisticalSummary =
  mean :: rat
  median :: rat
  stddev :: rat
  min_val :: rat
  max_val :: rat
  runs :: rat

datatype page = Home | Board

record AggregatedStats =
  framework :: string
  page :: page
  jsTransferred :: StatisticalSummary
  jsUncompressed :: StatisticalSummary
  compressionRatio :: rat
  performanceScore :: StatisticalSummary
  fcp :: StatisticalSummary
  lcp :: StatisticalSummary
  tbt :: StatisticalSummary
  cls :: StatisticalSummary
  si :: StatisticalSummary
  compressionType :: string
  chromeVersion :: string
  measurementTimestamp :: string

record framework_entry =
  name :: string
  dir :: string
  buildCheck :: "string list"

definition FRAMEWORKS :: "framework_entry list" where
  "FRAMEWORKS =
    [\<lparr>name = ''Next.js'', dir = ''kanban-nextjs'', buildCheck = [''.next'', ''dist'']\<rparr>,
     \<lparr>name = ''Nuxt'', dir = ''kanban-nuxt'', buildCheck = [''.output'', ''dist'']\<rparr>,
     \<lparr>name = ''Analog'', dir = ''kanban-analog'', buildCheck = [''dist'']\<rparr>,
     \<lparr>name = ''SolidStart'', dir = ''kanban-solidstart'', buildCheck = [''.output'', ''dist'']\<rparr>,
     \<lparr>name = ''SvelteKit'', dir = ''kanban-sveltekit'', buildCheck = [''.svelte-kit'', ''build'']\<rparr>,
     \<lparr>name = ''Qwik'', dir = ''kanban-qwikcity'', buildCheck = [''dist'']\<rparr>,
     \<lparr>name = ''Astro'', dir = ''kanban-htmx'', buildCheck = [''dist'']\<rparr>,
     \<lparr>name = ''TanStack Start'', dir = ''kanban-tanstack'', buildCheck = [''.output'', ''dist'']\<rparr>,
     \<lparr>name = ''TanStack Start + Solid'', dir = ''kanban-tanstack-solid'',
        buildCheck = [''.output'', ''dist'']\<rparr>,
     \<lparr>name = ''Marko'', dir = ''kanban-marko'', buildCheck = [''dist'', ''build'']\<rparr>,
     \<lparr>name = ''Go-Datastar'', dir = ''kanban-go-datastar'', buildCheck = [''bin'']\<rparr>,
     \<lparr>name = ''Hono-Datastar'', dir = ''kanban-hono-datastar'', buildCheck = [''dist'']\<rparr>]"

subsection \<open>The environment of one run\<close>

text \<open>
  \<^item> \<open>argv\<close> is \<open>process.argv.slice(2)\<close>, \<open>cwd\<close> is \<open>process.cwd()\<close>;
  \<^item> \<open>parseInt\<close> is the runtime's \<open>parseInt(s, 10)\<close>, whose result is an integer or
    \<open>NaN\<close> (\<open>None\<close>);
  \<^item> \<open>toFixed\<close> is \<open>Number.prototype.toFixed\<close> on a number, and \<open>toString_other\<close> the
    runtime's rendering of a number that is not an integer of absolute value at most \<open>2^53\<close>;
  \<^item> \<open>string_toNumber\<close> is the conversion of a string to a number, as the operators
    \<open>-\<close> and \<open>/\<close> apply it; \<open>string_iter\<close> is the sequence of strings that iterating over
    a string yields;
  \<^item> \<open>sort_inconsistent\<close> is the order in which \<open>Array.prototype.sort\<close> leaves an array on
    which the comparator yields \<open>NaN\<close> (the language leaves that order to the implementation);
  \<^item> \<open>existsSync\<close> answers each path as the file system does at the moment the script
    asks (every path is asked once);
  \<^item> \<open>execSync\<close> gives the standard output of a command, \<open>None\<close> when the call throws;
  \<^item> \<open>JSON_parse\<close> is \<open>JSON.parse\<close>, \<open>None\<close> when it throws;
  \<^item> \<open>toISOString\<close> is the result of the k-th \<open>new Date().toISOString()\<close> of the run.

  \<open>mkdirSync\<close> and \<open>writeFileSync\<close> are taken to succeed.
\<close>

record env =
  argv :: "string list"
  cwd :: string
  parseInt :: "string \<Rightarrow> int option"
  toFixed :: "rat \<Rightarrow> nat \<Rightarrow> string"
  toString_other :: "rat \<Rightarrow> string"
  string_toNumber :: "string \<Rightarrow> number"
  string_iter :: "string \<Rightarrow> string list"
  sort_inconsistent :: "jsval list \<Rightarrow> jsval list"
  existsSync :: "string \<Rightarrow> bool"
  execSync :: "string \<Rightarrow> string option"
  JSON_parse :: "string \<Rightarrow> jsval option"
  toISOString :: "nat \<Rightarrow> string"

subsection \<open>Strings and numbers of the runtime\<close>

definition dquote :: string where
  "dquote = [CHR 0x22]"

text \<open>The plus-minus sign U+00B1, as its two UTF-8 bytes.\<close>

definition plus_minus :: string where
  "plus_minus = [CHR 0xC2, CHR 0xB1]"

definition digit_char :: "nat \<Rightarrow> char" where
  "digit_char d = ''0123456789'' ! d"

function dec_nat :: "nat \<Rightarrow> string" where
  "dec_nat n = (if n < 10 then [digit_char n] else dec_nat (n div 10) @ [digit_char (n mod 10)])"
  by pat_completeness auto
termination
  by (relation "measure id") auto

declare dec_nat.simps [simp del]

text \<open>
  A number as a string (\<open>Number::toString\<close>): an integer of absolute value at most \<open>2^53\<close>
  is printed digit for digit, anything else as the runtime prints it.
\<close>

definition num_toString :: "env \<Rightarrow> rat \<Rightarrow> string" where
  "num_toString e q =
     (if of_int \<lfloor>q\<rfloor> = q \<and> \<bar>q\<bar> \<le> 2 ^ 53
      then (if q < 0 then ''-'' else []) @ dec_nat (nat \<bar>\<lfloor>q\<rfloor>\<bar>)
      else toString_other e q)"

text \<open>\<open>xs.join(sep)\<close> on strings.\<close>

fun join_with :: "string \<Rightarrow> string list \<Rightarrow> string" where
  "join_with sep [] = []"
| "join_with sep [x] = x"
| "join_with sep (x # y # ys) = x @ sep @ join_with sep (y # ys)"

definition join_comma :: "string list \<Rightarrow> string" where
  "join_comma xs = join_with '', '' xs"

text \<open>\<open>v || d\<close>: the falsy values are \<open>undefined\<close>, \<open>null\<close>, \<open>false\<close>, \<open>0\<close> and the empty string.\<close>

fun truthy :: "jsval \<Rightarrow> bool" where
  "truthy JUndefined = False"
| "truthy JNull = False"
| "truthy (JBool b) = b"
| "truthy (JNum q) = (q \<noteq> 0)"
| "truthy (JStr s) = (s \<noteq> [])"
| "truthy (JArr xs) = True"
| "truthy (JObj kvs) = True"

definition or_else :: "jsval \<Rightarrow> jsval \<Rightarrow> jsval" where
  "or_else v d = (if truthy v then v else d)"

text \<open>
  \<open>v.k\<close> for the property names the script reads (none of them is a property of a
  prototype): a \<open>TypeError\<close> on \<open>null\<close> and \<open>undefined\<close>, the value stored under the key in an
  object, \<open>undefined\<close> otherwise.
\<close>

definition getprop :: "jsval \<Rightarrow> string \<Rightarrow> jsval option" where
  "getprop v k =
     (case v of
        JUndefined \<Rightarrow> None
      | JNull \<Rightarrow> None
      | JObj kvs \<Rightarrow> Some (case map_of kvs k of None \<Rightarrow> JUndefined | Some x \<Rightarrow> x)
      | _ \<Rightarrow> Some JUndefined)"

text \<open>\<open>xs[0]\<close> and \<open>v?.k\<close>.\<close>

definition first_elem :: "jsval list \<Rightarrow> jsval" where
  "first_elem xs = (case xs of [] \<Rightarrow> JUndefined | x # _ \<Rightarrow> x)"

definition opt_getprop :: "jsval \<Rightarrow> string \<Rightarrow> jsval" where
  "opt_getprop v k = (case getprop v k of None \<Rightarrow> JUndefined | Some x \<Rightarrow> x)"

text \<open>
  A value inside a template literal. An array is joined with commas, \<open>null\<close> and
  \<open>undefined\<close> elements giving the empty string.
\<close>

fun js_toString :: "env \<Rightarrow> jsval \<Rightarrow> string" where
  "js_toString e JUndefined = ''undefined''"
| "js_toString e JNull = ''null''"
| "js_toString e (JBool b) = (if b then ''true'' else ''false'')"
| "js_toString e (JNum q) = num_toString e q"
| "js_toString e (JStr s) = s"
| "js_toString e (JArr xs) =
     join_with '','' (map (\<lambda>x. if x = JUndefined \<or> x = JNull then [] else js_toString e x) xs)"
| "js_toString e (JObj kvs) = ''[object Object]''"

text \<open>The operand of \<open>-\<close> and \<open>/\<close> as a number.\<close>

definition toNumber :: "env \<Rightarrow> jsval \<Rightarrow> number" where
  "toNumber e v =
     (case v of
        JUndefined \<Rightarrow> NaN
      | JNull \<Rightarrow> Fin 0
      | JBool b \<Rightarrow> Fin (if b then 1 else 0)
      | JNum q \<Rightarrow> Fin q
      | JStr s \<Rightarrow> string_toNumber e s
      | JArr xs \<Rightarrow> string_toNumber e (js_toString e (JArr xs))
      | JObj kvs \<Rightarrow> NaN)"

text \<open>\<open>v.toFixed(d)\<close>: a \<open>TypeError\<close> unless \<open>v\<close> is a number.\<close>

definition toFixed_call :: "env \<Rightarrow> jsval \<Rightarrow> nat \<Rightarrow> string option" where
  "toFixed_call e v d = (case v of JNum q \<Rightarrow> Some (toFixed e q d) | _ \<Rightarrow> None)"

text \<open>\<open>...v\<close> in an argument list: a \<open>TypeError\<close> unless \<open>v\<close> is an array or a string.\<close>

definition spread :: "env \<Rightarrow> jsval \<Rightarrow> jsval list option" where
  "spread e v =
     (case v of
        JArr xs \<Rightarrow> Some xs
      | JStr s \<Rightarrow> Some (map JStr (string_iter e s))
      | _ \<Rightarrow> None)"

subsection \<open>path.join (POSIX)\<close>

text \<open>The segments between the slashes of a path.\<close>

fun split_slash :: "string \<Rightarrow> string list" where
  "split_slash [] = [[]]"
| "split_slash (c # cs) =
     (if c = CHR ''/'' then [] # split_slash cs
      else (case split_slash cs of [] \<Rightarrow> [[c]] | seg # segs \<Rightarrow> (c # seg) # segs))"

text \<open>
  Empty segments and \<open>.\<close> are dropped, \<open>..\<close> removes the segment before it (and is kept in
  a relative path that has none). The segments kept so far are held in reverse.
\<close>

fun resolve_segments :: "bool \<Rightarrow> string list \<Rightarrow> string list \<Rightarrow> string list" where
  "resolve_segments allowAboveRoot [] kept = rev kept"
| "resolve_segments allowAboveRoot (seg # segs) kept =
     (if seg = [] \<or> seg = ''.'' then resolve_segments allowAboveRoot segs kept
      else if seg = ''..'' then
        (case kept of
           [] \<Rightarrow> resolve_segments allowAboveRoot segs (if allowAboveRoot then [''..''] else [])
         | k # ks \<Rightarrow>
             if k \<noteq> ''..'' then resolve_segments allowAboveRoot segs ks
             else resolve_segments allowAboveRoot segs (if allowAboveRoot then ''..'' # kept else kept))
      else resolve_segments allowAboveRoot segs (seg # kept))"

definition normalize_path :: "string \<Rightarrow> string" where
  "normalize_path path =
     (if path = [] then ''.''
      else
        (let isAbsolute = (hd path = CHR ''/'');
             trailingSeparator = (last path = CHR ''/'');
             p = join_with ''/'' (resolve_segments (\<not> isAbsolute) (split_slash path) [])
         in if p = [] then (if isAbsolute then ''/'' else if trailingSeparator then ''./'' else ''.'')
            else (if isAbsolute then ''/'' else []) @ p @ (if trailingSeparator then ''/'' else [])))"

definition join_path :: "string \<Rightarrow> string \<Rightarrow> string" where
  "join_path a b =
     (let joined = (if a = [] then b else if b = [] then a else a @ ''/'' @ b)
      in if joined = [] then ''.'' else normalize_path joined)"

subsection \<open>checkBuildExists\<close>

fun check_dirs :: "env \<Rightarrow> string \<Rightarrow> string list \<Rightarrow> bool" where
  "check_dirs e projectRoot [] = False"
| "check_dirs e projectRoot (buildDir # rest) =
     (if existsSync e (join_path projectRoot buildDir) then True
      else check_dirs e projectRoot rest)"

definition checkBuildExists :: "env \<Rightarrow> framework_entry \<Rightarrow> bool" where
  "checkBuildExists e fw =
     (let projectRoot = join_path (cwd e) (dir fw)
      in check_dirs e projectRoot (buildCheck fw))"

subsection \<open>formatKB and generateMarkdownTable\<close>

text \<open>\<open>(bytes / 1024).toFixed(1)\<close>; \<open>toFixed\<close> of \<open>NaN\<close> is the string \<open>NaN\<close>.\<close>

definition formatKB :: "env \<Rightarrow> jsval \<Rightarrow> string" where
  "formatKB e bytes = (case toNumber e bytes of NaN \<Rightarrow> ''NaN'' | Fin q \<Rightarrow> toFixed e (q / 1024) 1)"

definition page_str :: "page \<Rightarrow> string" where
  "page_str p = (case p of Home \<Rightarrow> ''home'' | Board \<Rightarrow> ''board'')"

text \<open>\<open>results.filter(r => r.page === page)\<close>: reading \<open>r.page\<close> throws on a \<open>null\<close> element.\<close>

fun filter_page :: "string \<Rightarrow> jsval list \<Rightarrow> jsval list option" where
  "filter_page p [] = Some []"
| "filter_page p (r # rs) =
     (case getprop r ''page'' of
        None \<Rightarrow> None
      | Some v \<Rightarrow>
          (case filter_page p rs of
             None \<Rightarrow> None
           | Some kept \<Rightarrow> Some (if v = JStr p then r # kept else kept)))"

text \<open>
  The sort of the copy with the comparator
  \<open>a.jsUncompressed.median - b.jsUncompressed.median\<close>. \<open>bundle_key\<close> is what the comparator
  computes of one element. On fewer than two elements the comparator is not called. On more
  every element is compared, so the sort throws if the key of one throws. When every key is
  a number the comparator is a consistent ordering and \<open>Array.prototype.sort\<close> is stable, so
  the result is the stable sort by the key; otherwise the order is the implementation's.
\<close>

definition bundle_key :: "env \<Rightarrow> jsval \<Rightarrow> number option" where
  "bundle_key e r = do {
     u \<leftarrow> getprop r ''jsUncompressed'';
     m \<leftarrow> getprop u ''median'';
     Some (toNumber e m)
   }"

definition fin_key :: "env \<Rightarrow> jsval \<Rightarrow> rat" where
  "fin_key e r = (case bundle_key e r of Some (Fin q) \<Rightarrow> q | _ \<Rightarrow> 0)"

definition sort_by_bundle :: "env \<Rightarrow> jsval list \<Rightarrow> jsval list option" where
  "sort_by_bundle e rs =
     (if length rs < 2 then Some rs
      else if None \<in> set (map (bundle_key e) rs) then None
      else if Some NaN \<in> set (map (bundle_key e) rs) then Some (sort_inconsistent e rs)
      else Some (sort_key (fin_key e) rs))"

definition sortedByBundle :: "env \<Rightarrow> jsval list \<Rightarrow> page \<Rightarrow> jsval list option" where
  "sortedByBundle e results p = do {
     pageResults \<leftarrow> filter_page (page_str p) results;
     sort_by_bundle e pageResults
   }"

definition table_head :: "page \<Rightarrow> string" where
  "table_head p =
     ''## '' @ (if p = Home then ''Home Page'' else ''Board Page'') @ '' Performance\<newline>\<newline>''
     @ ''Sorted by raw bundle size (smallest first):\<newline>\<newline>''
     @ ''| Framework | Raw (kB) | Compressed (kB) | Ratio | Perf Score | FCP (ms) | LCP (ms) |\<newline>''
     @ ''|-----------|----------|----------------|-------|------------|----------|----------|\<newline>''"

text \<open>The body of the \<open>for (const r of sortedByBundle)\<close> loop: the row of one element.\<close>

definition table_row :: "env \<Rightarrow> jsval \<Rightarrow> string option" where
  "table_row e r = do {
     u \<leftarrow> getprop r ''jsUncompressed'';
     u_median \<leftarrow> getprop u ''median'';
     u_stddev \<leftarrow> getprop u ''stddev'';
     t \<leftarrow> getprop r ''jsTransferred'';
     t_median \<leftarrow> getprop t ''median'';
     t_stddev \<leftarrow> getprop t ''stddev'';
     ratio_v \<leftarrow> getprop r ''compressionRatio'';
     ps \<leftarrow> getprop r ''performanceScore'';
     ps_median \<leftarrow> getprop ps ''median'';
     ps_stddev \<leftarrow> getprop ps ''stddev'';
     ps_fixed \<leftarrow> toFixed_call e ps_stddev 1;
     f \<leftarrow> getprop r ''fcp'';
     f_median \<leftarrow> getprop f ''median'';
     f_stddev \<leftarrow> getprop f ''stddev'';
     f_fixed \<leftarrow> toFixed_call e f_stddev 0;
     l \<leftarrow> getprop r ''lcp'';
     l_median \<leftarrow> getprop l ''median'';
     l_stddev \<leftarrow> getprop l ''stddev'';
     l_fixed \<leftarrow> toFixed_call e l_stddev 0;
     fw \<leftarrow> getprop r ''framework'';
     Some (let raw = formatKB e u_median @ '' '' @ plus_minus @ formatKB e u_stddev;
               compressed = formatKB e t_median @ '' '' @ plus_minus @ formatKB e t_stddev;
               ratio = js_toString e ratio_v @ ''%'';
               perf = js_toString e ps_median @ '' '' @ plus_minus @ ps_fixed;
               fcp_s = js_toString e f_median @ '' '' @ plus_minus @ f_fixed;
               lcp_s = js_toString e l_median @ '' '' @ plus_minus @ l_fixed
           in ''| '' @ js_toString e fw @ '' | '' @ raw @ '' | '' @ compressed @ '' | '' @ ratio
              @ '' | '' @ perf @ '' | '' @ fcp_s @ '' | '' @ lcp_s @ '' |\<newline>'')
   }"

text \<open>The loop, appending one row per element; it stops at the first row that throws.\<close>

fun append_rows :: "env \<Rightarrow> jsval list \<Rightarrow> string \<Rightarrow> string option" where
  "append_rows e [] markdown = Some markdown"
| "append_rows e (r # rs) markdown =
     (case table_row e r of
        None \<Rightarrow> None
      | Some row \<Rightarrow> append_rows e rs (markdown @ row))"

text \<open>
  \<open>sortedByBundle[0]?.jsTransferred.runs || 3\<close>: the optional chain ends at a missing first
  element; the property reads after it throw as usual.
\<close>

definition footer_runs :: "jsval list \<Rightarrow> jsval option" where
  "footer_runs sorted_rs =
     (if first_elem sorted_rs = JUndefined \<or> first_elem sorted_rs = JNull then Some (JNum 3)
      else do {
        t \<leftarrow> getprop (first_elem sorted_rs) ''jsTransferred'';
        v \<leftarrow> getprop t ''runs'';
        Some (or_else v (JNum 3))
      })"

text \<open>\<open>sortedByBundle[0]?.compressionType || 'gzip'\<close>\<close>

definition footer_compression :: "jsval list \<Rightarrow> jsval" where
  "footer_compression sorted_rs =
     or_else (opt_getprop (first_elem sorted_rs) ''compressionType'') (JStr ''gzip'')"

definition table_foot :: "env \<Rightarrow> jsval \<Rightarrow> jsval \<Rightarrow> string" where
  "table_foot e runs_v compression_v =
     ''\<newline>''
     @ ''**Explanation:**\<newline>''
     @ ''- **Raw**: Uncompressed bundle size (actual code volume, more consistent for comparison)\<newline>''
     @ ''- **Compressed**: Bytes transferred over network (what users download)\<newline>''
     @ ''- **Ratio**: Percentage saved by compression (higher is better compression)\<newline>''
     @ ''- Values show median '' @ plus_minus @ ''std dev from ''
        @ js_toString e runs_v @ '' measurement runs\<newline>''
     @ ''- Compression type: '' @ js_toString e compression_v @ ''\<newline>\<newline>''"

definition generateMarkdownTable :: "env \<Rightarrow> jsval list \<Rightarrow> page \<Rightarrow> string option" where
  "generateMarkdownTable e results p = do {
     sorted_rs \<leftarrow> sortedByBundle e results p;
     markdown \<leftarrow> append_rows e sorted_rs (table_head p);
     runs_v \<leftarrow> footer_runs sorted_rs;
     Some (markdown @ table_foot e runs_v (footer_compression sorted_rs))
   }"

subsection \<open>What a run does: the trace of its effects\<close>

record report_metadata =
  md_timestamp :: string
  md_runsPerPage :: int
  md_measurementType :: string
  md_networkCondition :: jsval
  md_chromeVersion :: jsval
  md_compressionType :: jsval

record results_data =
  rd_metadata :: report_metadata
  rd_results :: "jsval list"

record legacy_entry =
  le_framework :: jsval
  le_jsUncompressed :: jsval
  le_jsTransferred :: jsval
  le_compressionRatio :: jsval
  le_requests :: nat

record legacy_summary =
  ls_timestamp :: string
  ls_note :: string
  ls_boardPage :: "legacy_entry list"
  ls_homePage :: "legacy_entry list"

text \<open>
  What is handed to \<open>writeFileSync\<close>: the two JSON files are kept as the value given to
  \<open>JSON.stringify\<close>, the markdown file as its text.
\<close>

datatype file_content =
  Json_results results_data
| Markdown string
| Json_legacy legacy_summary

text \<open>
  The messages of the script's \<open>console.error\<close> calls, in the order of the source.
  \<open>L_rule k\<close> is the line of sixty \<open>=\<close> signs printed after \<open>k\<close> newlines. The last one is
  the error that the handler of \<open>main().catch(console.error)\<close> prints when \<open>main\<close> throws.
\<close>

datatype log_msg =
  L_runs_error
| L_network_error string
| L_available_conditions
| L_banner
| L_runs_per_page int
| L_network string
| L_frameworks nat
| L_validating
| L_build_not_found string
| L_build_found string
| L_missing_builds "string list"
| L_please_build
| L_all_validated
| L_rule nat
| L_measuring string
| L_failed_to_measure string
| L_generating_reports
| L_json_results string
| L_markdown_report string
| L_legacy_format string
| L_summary_title
| L_board_sizes
| L_home_sizes
| L_bundle_line jsval
| L_failed "string list"
| L_complete
| L_uncaught_TypeError

datatype event =
  Log log_msg
| Exec string
| Mkdir string
| WriteFile string file_content

text \<open>
  How the process ends: \<open>process.exit(1)\<close> ends it with status 1; otherwise it ends by
  itself with status 0, after \<open>main\<close> has returned or after \<open>main\<close> has thrown and the
  handler has printed the error.
\<close>

datatype outcome = Exited nat | Completed

subsection \<open>main: the command line\<close>

text \<open>
  The loop over \<open>args\<close> with index \<open>i\<close>: a flag is recognised only when another argument
  follows it (\<open>i + 1 < args.length\<close>), and then that argument is skipped. The result is
  either the messages printed before \<open>process.exit(1)\<close> or the final \<open>numRuns\<close> and
  \<open>networkCondition\<close>.
\<close>

fun parseArgs :: "env \<Rightarrow> string list \<Rightarrow> int \<Rightarrow> string \<Rightarrow> event list + int \<times> string" where
  "parseArgs e [] numRuns nc = Inr (numRuns, nc)"
| "parseArgs e [a] numRuns nc = Inr (numRuns, nc)"
| "parseArgs e (a # v # rest) numRuns nc =
     (if a = ''--runs'' then
        (case parseInt e v of
           None \<Rightarrow> Inl [Log L_runs_error]
         | Some n \<Rightarrow> if n < 1 then Inl [Log L_runs_error] else parseArgs e rest n nc)
      else if a = ''--network'' then
        (if v \<in> set [''4g'', ''3g'', ''slow-3g''] then parseArgs e rest numRuns v
         else Inl [Log (L_network_error v), Log L_available_conditions])
      else parseArgs e (v # rest) numRuns nc)"

subsection \<open>main: validating the builds\<close>

record vstate =
  missingBuilds :: "string list"
  v_trace :: "event list"

definition validateOne :: "env \<Rightarrow> framework_entry \<Rightarrow> vstate \<Rightarrow> vstate" where
  "validateOne e fw s =
     (if \<not> checkBuildExists e fw
      then s\<lparr>missingBuilds := missingBuilds s @ [name fw],
             v_trace := v_trace s @ [Log (L_build_not_found (name fw))]\<rparr>
      else s\<lparr>v_trace := v_trace s @ [Log (L_build_found (name fw))]\<rparr>)"

fun validateBuilds :: "env \<Rightarrow> framework_entry list \<Rightarrow> vstate \<Rightarrow> vstate" where
  "validateBuilds e [] s = s"
| "validateBuilds e (fw # fws) s = validateBuilds e fws (validateOne e fw s)"

subsection \<open>main: measuring\<close>

definition measure_command :: "env \<Rightarrow> int \<Rightarrow> string \<Rightarrow> framework_entry \<Rightarrow> string" where
  "measure_command e numRuns nc fw =
     ''tsx scripts/measure-single.ts '' @ dquote @ name fw @ dquote
     @ '' --runs '' @ num_toString e (of_int numRuns) @ '' --network '' @ nc"

text \<open>
  The body of the \<open>try\<close>: \<open>execSync\<close>, then \<open>JSON.parse\<close>, then the spread of the parsed
  value into \<open>allResults.push\<close>. \<open>None\<close> is the \<open>catch\<close> branch.
\<close>

definition try_measure :: "env \<Rightarrow> int \<Rightarrow> string \<Rightarrow> framework_entry \<Rightarrow> jsval list option" where
  "try_measure e numRuns nc fw =
     (case execSync e (measure_command e numRuns nc fw) of
        None \<Rightarrow> None
      | Some output \<Rightarrow>
          (case JSON_parse e output of
             None \<Rightarrow> None
           | Some results \<Rightarrow> spread e results))"

record mstate =
  allResults :: "jsval list"
  failedFrameworks :: "string list"
  m_trace :: "event list"

definition measureOne :: "env \<Rightarrow> int \<Rightarrow> string \<Rightarrow> framework_entry \<Rightarrow> mstate \<Rightarrow> mstate" where
  "measureOne e numRuns nc fw s =
     (let s = s\<lparr>m_trace := m_trace s @ [Log (L_rule 1), Log (L_measuring (name fw)), Log (L_rule 0),
                                        Exec (measure_command e numRuns nc fw)]\<rparr>
      in case try_measure e numRuns nc fw of
           Some results \<Rightarrow> s\<lparr>allResults := allResults s @ results\<rparr>
         | None \<Rightarrow> s\<lparr>failedFrameworks := failedFrameworks s @ [name fw],
                     m_trace := m_trace s @ [Log (L_failed_to_measure (name fw))]\<rparr>)"

fun measureAll :: "env \<Rightarrow> int \<Rightarrow> string \<Rightarrow> framework_entry list \<Rightarrow> mstate \<Rightarrow> mstate" where
  "measureAll e numRuns nc [] s = s"
| "measureAll e numRuns nc (fw # fws) s = measureAll e numRuns nc fws (measureOne e numRuns nc fw s)"

subsection \<open>main: the reports\<close>

text \<open>\<open>allResults[0]?.k || d\<close>\<close>

definition first_or :: "jsval list \<Rightarrow> string \<Rightarrow> jsval \<Rightarrow> jsval" where
  "first_or rs k d = or_else (opt_getprop (first_elem rs) k) d"

definition resultsData :: "env \<Rightarrow> int \<Rightarrow> string \<Rightarrow> jsval list \<Rightarrow> results_data" where
  "resultsData e numRuns nc rs =
     \<lparr>rd_metadata =
        \<lparr>md_timestamp = toISOString e 0,
         md_runsPerPage = numRuns,
         md_measurementType = ''cold-load'',
         md_networkCondition = first_or rs ''networkCondition'' (JStr nc),
         md_chromeVersion = first_or rs ''chromeVersion'' (JStr ''unknown''),
         md_compressionType = first_or rs ''compressionType'' (JStr ''gzip'')\<rparr>,
      rd_results = rs\<rparr>"

definition failed_section :: "string list \<Rightarrow> string" where
  "failed_section failed =
     (if length failed > 0
      then ''## Failed Measurements\<newline>\<newline>''
           @ ''The following frameworks failed to measure: '' @ join_comma failed @ ''\<newline>\<newline>''
      else [])"

definition report_head :: "env \<Rightarrow> int \<Rightarrow> jsval list \<Rightarrow> string" where
  "report_head e numRuns rs =
     ''# Framework Performance Comparison\<newline>\<newline>''
     @ ''*Measured: '' @ toISOString e 1 @ ''*\<newline>\<newline>''
     @ ''## Methodology\<newline>\<newline>''
     @ ''- **Runs per page**: '' @ num_toString e (of_int numRuns) @ ''\<newline>''
     @ ''- **Measurement type**: Cold-load (cache cleared between runs)\<newline>''
     @ ''- **Device**: Mobile (Pixel 5 emulation)\<newline>''
     @ ''- **Network**: 4G throttling (10 Mbps down, 40ms RTT)\<newline>''
     @ ''- **CPU**: 1x (no throttling, to isolate bundle size impact)\<newline>''
     @ ''- **Lighthouse version**: ''
        @ js_toString e (first_or rs ''chromeVersion'' (JStr ''unknown'')) @ ''\<newline>''
     @ ''- **Compression**: ''
        @ js_toString e (first_or rs ''compressionType'' (JStr ''gzip'')) @ ''\<newline>\<newline>''"

text \<open>The markdown text; \<open>None\<close> when one of the two tables throws.\<close>

definition report_markdown :: "env \<Rightarrow> int \<Rightarrow> jsval list \<Rightarrow> string list \<Rightarrow> string option" where
  "report_markdown e numRuns rs failed = do {
     let markdown = report_head e numRuns rs;
     board \<leftarrow> generateMarkdownTable e rs Board;
     let markdown = markdown @ board;
     home \<leftarrow> generateMarkdownTable e rs Home;
     let markdown = markdown @ home;
     Some (markdown @ failed_section failed)
   }"

definition legacy_of :: "jsval \<Rightarrow> legacy_entry option" where
  "legacy_of r = do {
     fw \<leftarrow> getprop r ''framework'';
     u \<leftarrow> getprop r ''jsUncompressed'';
     u_median \<leftarrow> getprop u ''median'';
     t \<leftarrow> getprop r ''jsTransferred'';
     t_median \<leftarrow> getprop t ''median'';
     ratio_v \<leftarrow> getprop r ''compressionRatio'';
     Some \<lparr>le_framework = fw, le_jsUncompressed = u_median, le_jsTransferred = t_median,
           le_compressionRatio = ratio_v, le_requests = 0\<rparr>
   }"

text \<open>\<open>allResults.filter(...).sort(...).map(...)\<close>\<close>

definition legacy_page :: "env \<Rightarrow> jsval list \<Rightarrow> page \<Rightarrow> legacy_entry list option" where
  "legacy_page e rs p = do {
     sorted_rs \<leftarrow> sortedByBundle e rs p;
     those (map legacy_of sorted_rs)
   }"

definition legacySummary :: "env \<Rightarrow> jsval list \<Rightarrow> legacy_summary option" where
  "legacySummary e rs = do {
     board \<leftarrow> legacy_page e rs Board;
     home \<leftarrow> legacy_page e rs Home;
     Some \<lparr>ls_timestamp = toISOString e 2,
           ls_note = ''Bundle sizes use raw (uncompressed) as primary, compressed in parentheses'',
           ls_boardPage = board,
           ls_homePage = home\<rparr>
   }"

definition metricsDir :: "env \<Rightarrow> string" where
  "metricsDir e = join_path (cwd e) ''metrics''"

definition resultsPath :: "env \<Rightarrow> string" where
  "resultsPath e = join_path (metricsDir e) ''final-measurements.json''"

definition markdownPath :: "env \<Rightarrow> string" where
  "markdownPath e = join_path (metricsDir e) ''final-measurements.md''"

definition legacyPath :: "env \<Rightarrow> string" where
  "legacyPath e = join_path (metricsDir e) ''bundle-summary.json''"

text \<open>
  One line of the closing summary. Its template reads the medians of three summaries and
  calls \<open>r.framework.padEnd(23)\<close>, which throws unless \<open>framework\<close> is a string.
\<close>

definition bundle_line :: "jsval \<Rightarrow> log_msg option" where
  "bundle_line r = do {
     u \<leftarrow> getprop r ''jsUncompressed'';
     u_median \<leftarrow> getprop u ''median'';
     t \<leftarrow> getprop r ''jsTransferred'';
     t_median \<leftarrow> getprop t ''median'';
     ratio_v \<leftarrow> getprop r ''compressionRatio'';
     ps \<leftarrow> getprop r ''performanceScore'';
     ps_median \<leftarrow> getprop ps ''median'';
     fw \<leftarrow> getprop r ''framework'';
     (case fw of JStr s \<Rightarrow> Some (L_bundle_line r) | _ \<Rightarrow> None)
   }"

text \<open>
  The loop printing the lines: the lines printed, and whether the loop ran to its end
  (\<open>False\<close>: a line threw).
\<close>

fun print_lines :: "jsval list \<Rightarrow> event list \<times> bool" where
  "print_lines [] = ([], True)"
| "print_lines (r # rs) =
     (case bundle_line r of
        None \<Rightarrow> ([], False)
      | Some m \<Rightarrow> (case print_lines rs of (printed, ok) \<Rightarrow> (Log m # printed, ok)))"

text \<open>The closing summary (from the line \<open>MEASUREMENT SUMMARY\<close> on).\<close>

definition summary_events :: "env \<Rightarrow> jsval list \<Rightarrow> string list \<Rightarrow> event list" where
  "summary_events e rs failed =
     [Log (L_rule 2), Log L_summary_title, Log (L_rule 0)]
     @ (case sortedByBundle e rs Board of
          None \<Rightarrow> [Log L_uncaught_TypeError]
        | Some boardResults \<Rightarrow>
            [Log L_board_sizes]
            @ (case print_lines boardResults of
                 (printed, False) \<Rightarrow> printed @ [Log L_uncaught_TypeError]
               | (printed, True) \<Rightarrow>
                   printed
                   @ (case sortedByBundle e rs Home of
                        None \<Rightarrow> [Log L_uncaught_TypeError]
                      | Some homeResults \<Rightarrow>
                          [Log L_home_sizes]
                          @ (case print_lines homeResults of
                               (printed2, False) \<Rightarrow> printed2 @ [Log L_uncaught_TypeError]
                             | (printed2, True) \<Rightarrow>
                                 printed2
                                 @ (if length failed > 0 then [Log (L_failed failed)] else [])
                                 @ [Log L_complete]))))"

text \<open>
  Everything \<open>main\<close> does after the measurement loop, as the list of its effects. A throw
  ends it: what was done before stays done, the handler prints the error.
\<close>

definition generateReports :: "env \<Rightarrow> int \<Rightarrow> string \<Rightarrow> jsval list \<Rightarrow> string list \<Rightarrow> event list" where
  "generateReports e numRuns nc rs failed =
     [Log L_generating_reports]
     @ (if \<not> existsSync e (metricsDir e) then [Mkdir (metricsDir e)] else [])
     @ [WriteFile (resultsPath e) (Json_results (resultsData e numRuns nc rs)),
        Log (L_json_results (resultsPath e))]
     @ (case report_markdown e numRuns rs failed of
          None \<Rightarrow> [Log L_uncaught_TypeError]
        | Some markdown \<Rightarrow>
            [WriteFile (markdownPath e) (Markdown markdown),
             Log (L_markdown_report (markdownPath e))]
            @ (case legacySummary e rs of
                 None \<Rightarrow> [Log L_uncaught_TypeError]
               | Some legacy \<Rightarrow>
                   [WriteFile (legacyPath e) (Json_legacy legacy),
                    Log (L_legacy_format (legacyPath e))]
                   @ summary_events e rs failed))"

subsection \<open>main\<close>

text \<open>The run once the command line has been read, with the values it gave.\<close>

definition run_with :: "env \<Rightarrow> int \<Rightarrow> string \<Rightarrow> event list \<times> outcome" where
  "run_with e numRuns nc =
     (let banner = [Log L_banner, Log (L_runs_per_page numRuns), Log (L_network nc),
                    Log (L_frameworks (length FRAMEWORKS))];
          v = validateBuilds e FRAMEWORKS \<lparr>missingBuilds = [], v_trace = banner @ [Log L_validating]\<rparr>
      in if length (missingBuilds v) > 0
         then (v_trace v @ [Log (L_missing_builds (missingBuilds v)), Log L_please_build], Exited 1)
         else
           (let m = measureAll e numRuns nc FRAMEWORKS
                      \<lparr>allResults = [], failedFrameworks = [],
                       m_trace = v_trace v @ [Log L_all_validated]\<rparr>
            in (m_trace m @ generateReports e numRuns nc (allResults m) (failedFrameworks m),
                Completed)))"

definition main :: "env \<Rightarrow> event list \<times> outcome" where
  "main e =
     (case parseArgs e (argv e) 10 ''4g'' of
        Inl errors \<Rightarrow> (errors, Exited 1)
      | Inr (numRuns, nc) \<Rightarrow> run_with e numRuns nc)"

subsection \<open>Reading a trace\<close>

fun execs :: "event list \<Rightarrow> string list" where
  "execs [] = []"
| "execs (Exec c # t) = c # execs t"
| "execs (_ # t) = execs t"

fun writes :: "event list \<Rightarrow> (string \<times> file_content) list" where
  "writes [] = []"
| "writes (WriteFile p c # t) = (p, c) # writes t"
| "writes (_ # t) = writes t"

text \<open>The results inside the JSON results files written.\<close>

fun written_results :: "event list \<Rightarrow> jsval list" where
  "written_results [] = []"
| "written_results (WriteFile p (Json_results d) # t) = rd_results d @ written_results t"
| "written_results (_ # t) = written_results t"

subsection \<open>Values that conform to the declared interfaces\<close>

text \<open>
  \<open>decode v\<close> is the record a value \<open>v\<close> stands for when \<open>v\<close> has every field the
  interface \<open>AggregatedStats\<close> declares, with a value of the declared type (more fields
  are allowed), and \<open>None\<close> otherwise. The script performs no such check; \<open>encode\<close> is the
  object with exactly the declared fields.
\<close>

definition num_field :: "jsval \<Rightarrow> string \<Rightarrow> rat option" where
  "num_field v k = (case getprop v k of Some (JNum q) \<Rightarrow> Some q | _ \<Rightarrow> None)"

definition str_field :: "jsval \<Rightarrow> string \<Rightarrow> string option" where
  "str_field v k = (case getprop v k of Some (JStr s) \<Rightarrow> Some s | _ \<Rightarrow> None)"

definition decode_summary :: "jsval \<Rightarrow> StatisticalSummary option" where
  "decode_summary v = do {
     a \<leftarrow> num_field v ''mean'';
     b \<leftarrow> num_field v ''median'';
     c \<leftarrow> num_field v ''stddev'';
     d \<leftarrow> num_field v ''min'';
     m \<leftarrow> num_field v ''max'';
     n \<leftarrow> num_field v ''runs'';
     Some \<lparr>mean = a, median = b, stddev = c, min_val = d, max_val = m, runs = n\<rparr>
   }"

definition summary_field :: "jsval \<Rightarrow> string \<Rightarrow> StatisticalSummary option" where
  "summary_field v k = do { s \<leftarrow> getprop v k; decode_summary s }"

definition page_field :: "jsval \<Rightarrow> page option" where
  "page_field v =
     (case getprop v ''page'' of
        Some (JStr s) \<Rightarrow> if s = ''home'' then Some Home else if s = ''board'' then Some Board else None
      | _ \<Rightarrow> None)"

definition decode :: "jsval \<Rightarrow> AggregatedStats option" where
  "decode v = do {
     fw \<leftarrow> str_field v ''framework'';
     p \<leftarrow> page_field v;
     jt \<leftarrow> summary_field v ''jsTransferred'';
     ju \<leftarrow> summary_field v ''jsUncompressed'';
     cr \<leftarrow> num_field v ''compressionRatio'';
     ps \<leftarrow> summary_field v ''performanceScore'';
     f \<leftarrow> summary_field v ''fcp'';
     l \<leftarrow> summary_field v ''lcp'';
     t \<leftarrow> summary_field v ''tbt'';
     c \<leftarrow> summary_field v ''cls'';
     s \<leftarrow> summary_field v ''si'';
     ct \<leftarrow> str_field v ''compressionType'';
     cv \<leftarrow> str_field v ''chromeVersion'';
     mt \<leftarrow> str_field v ''measurementTimestamp'';
     Some \<lparr>framework = fw, page = p, jsTransferred = jt, jsUncompressed = ju,
           compressionRatio = cr, performanceScore = ps, fcp = f, lcp = l, tbt = t, cls = c,
           si = s, compressionType = ct, chromeVersion = cv, measurementTimestamp = mt\<rparr>
   }"

definition encode_summary :: "StatisticalSummary \<Rightarrow> jsval" where
  "encode_summary s =
     JObj [(''mean'', JNum (mean s)), (''median'', JNum (median s)), (''stddev'', JNum (stddev s)),
           (''min'', JNum (min_val s)), (''max'', JNum (max_val s)), (''runs'', JNum (runs s))]"

definition encode :: "AggregatedStats \<Rightarrow> jsval" where
  "encode a =
     JObj [(''framework'', JStr (framework a)),
           (''page'', JStr (page_str (page a))),
           (''jsTransferred'', encode_summary (jsTransferred a)),
           (''jsUncompressed'', encode_summary (jsUncompressed a)),
           (''compressionRatio'', JNum (compressionRatio a)),
           (''performanceScore'', encode_summary (performanceScore a)),
           (''fcp'', encode_summary (fcp a)),
           (''lcp'', encode_summary (lcp a)),
           (''tbt'', encode_summary (tbt a)),
           (''cls'', encode_summary (cls a)),
           (''si'', encode_summary (si a)),
           (''compressionType'', JStr (compressionType a)),
           (''chromeVersion'', JStr (chromeVersion a)),
           (''measurementTimestamp'', JStr (measurementTimestamp a))]"

text \<open>An object with one field replaced.\<close>

definition set_field :: "string \<Rightarrow> jsval \<Rightarrow> jsval \<Rightarrow> jsval" where
  "set_field k x v =
     (case v of
        JObj kvs \<Rightarrow> JObj (map (\<lambda>(k', y). if k' = k then (k', x) else (k', y)) kvs)
      | _ \<Rightarrow> v)"

subsection \<open>The text of a table, written out\<close>

text \<open>
  Notation for stating what the script writes for records of the declared type: the row of
  a record, a whole table for the records of its rows in order, and the head of the
  report. These are abbreviations, not functions of the model.
\<close>

abbreviation row_text :: "env \<Rightarrow> AggregatedStats \<Rightarrow> string" where
  "row_text e a \<equiv>
     ''| '' @ framework a
     @ '' | '' @ toFixed e (median (jsUncompressed a) / 1024) 1
        @ '' '' @ [CHR 0xC2, CHR 0xB1] @ toFixed e (stddev (jsUncompressed a) / 1024) 1
     @ '' | '' @ toFixed e (median (jsTransferred a) / 1024) 1
        @ '' '' @ [CHR 0xC2, CHR 0xB1] @ toFixed e (stddev (jsTransferred a) / 1024) 1
     @ '' | '' @ num_toString e (compressionRatio a) @ ''%''
     @ '' | '' @ num_toString e (median (performanceScore a))
        @ '' '' @ [CHR 0xC2, CHR 0xB1] @ toFixed e (stddev (performanceScore a)) 1
     @ '' | '' @ num_toString e (median (fcp a))
        @ '' '' @ [CHR 0xC2, CHR 0xB1] @ toFixed e (stddev (fcp a)) 0
     @ '' | '' @ num_toString e (median (lcp a))
        @ '' '' @ [CHR 0xC2, CHR 0xB1] @ toFixed e (stddev (lcp a)) 0
     @ '' |\<newline>''"

abbreviation table_text :: "env \<Rightarrow> page \<Rightarrow> AggregatedStats list \<Rightarrow> string" where
  "table_text e p rows \<equiv>
     ''## '' @ (if p = Home then ''Home Page'' else ''Board Page'') @ '' Performance\<newline>\<newline>''
     @ ''Sorted by raw bundle size (smallest first):\<newline>\<newline>''
     @ ''| Framework | Raw (kB) | Compressed (kB) | Ratio | Perf Score | FCP (ms) | LCP (ms) |\<newline>''
     @ ''|-----------|----------|----------------|-------|------------|----------|----------|\<newline>''
     @ concat (map (row_text e) rows)
     @ ''\<newline>''
     @ ''**Explanation:**\<newline>''
     @ ''- **Raw**: Uncompressed bundle size (actual code volume, more consistent for comparison)\<newline>''
     @ ''- **Compressed**: Bytes transferred over network (what users download)\<newline>''
     @ ''- **Ratio**: Percentage saved by compression (higher is better compression)\<newline>''
     @ ''- Values show median '' @ [CHR 0xC2, CHR 0xB1] @ ''std dev from ''
        @ num_toString e (case rows of [] \<Rightarrow> 3
                          | a # _ \<Rightarrow> if runs (jsTransferred a) = 0 then 3 else runs (jsTransferred a))
        @ '' measurement runs\<newline>''
     @ ''- Compression type: ''
        @ (case rows of [] \<Rightarrow> ''gzip''
           | a # _ \<Rightarrow> if compressionType a = [] then ''gzip'' else compressionType a)
        @ ''\<newline>\<newline>''"

abbreviation report_head_text :: "env \<Rightarrow> int \<Rightarrow> AggregatedStats list \<Rightarrow> string" where
  "report_head_text e n records \<equiv>
     ''# Framework Performance Comparison\<newline>\<newline>''
     @ ''*Measured: '' @ toISOString e 1 @ ''*\<newline>\<newline>''
     @ ''## Methodology\<newline>\<newline>''
     @ ''- **Runs per page**: '' @ num_toString e (of_int n) @ ''\<newline>''
     @ ''- **Measurement type**: Cold-load (cache cleared between runs)\<newline>''
     @ ''- **Device**: Mobile (Pixel 5 emulation)\<newline>''
     @ ''- **Network**: 4G throttling (10 Mbps down, 40ms RTT)\<newline>''
     @ ''- **CPU**: 1x (no throttling, to isolate bundle size impact)\<newline>''
     @ ''- **Lighthouse version**: ''
        @ (case records of [] \<Rightarrow> ''unknown''
           | a # _ \<Rightarrow> if chromeVersion a = [] then ''unknown'' else chromeVersion a)
        @ ''\<newline>''
     @ ''- **Compression**: ''
        @ (case records of [] \<Rightarrow> ''gzip''
           | a # _ \<Rightarrow> if compressionType a = [] then ''gzip'' else compressionType a)
        @ ''\<newline>\<newline>''"

text \<open>The records of one page in the order of the table, and an entry of the legacy summary.\<close>

abbreviation page_rows :: "page \<Rightarrow> AggregatedStats list \<Rightarrow> AggregatedStats list" where
  "page_rows p records \<equiv>
     sort_key (\<lambda>a. median (jsUncompressed a)) (filter (\<lambda>a. page a = p) records)"

abbreviation legacy_text :: "AggregatedStats \<Rightarrow> legacy_entry" where
  "legacy_text a \<equiv>
     \<lparr>le_framework = JStr (framework a),
      le_jsUncompressed = JNum (median (jsUncompressed a)),
      le_jsTransferred = JNum (median (jsTransferred a)),
      le_compressionRatio = JNum (compressionRatio a),
      le_requests = 0\<rparr>"

text \<open>\<open>names.join(', ')\<close>, written out.\<close>

abbreviation comma_list :: "string list \<Rightarrow> string" where
  "comma_list names \<equiv> concat (map (\<lambda>x. x @ '', '') (butlast names)) @ last names"

subsection \<open>A concrete environment\<close>

text \<open>
  An instance of the runtime functions for evaluating the script on concrete inputs:
  \<open>parseInt\<close> on ASCII input (leading white space, an optional sign, then the longest run
  of decimal digits) and \<open>toFixed\<close> on exact rationals (the nearest multiple of
  \<open>10^-f\<close>, the larger one on a tie, computed on the absolute value).
\<close>

definition is_space :: "char \<Rightarrow> bool" where
  "is_space ch = (ch \<in> set [CHR 0x09, CHR 0x0A, CHR 0x0B, CHR 0x0C, CHR 0x0D, CHR 0x20])"

definition digit_of :: "char \<Rightarrow> nat option" where
  "digit_of ch =
     (let c = (of_char ch :: nat) in if 48 \<le> c \<and> c \<le> 57 then Some (c - 48) else None)"

fun digits_prefix :: "string \<Rightarrow> nat list" where
  "digits_prefix [] = []"
| "digits_prefix (ch # rest) =
     (case digit_of ch of None \<Rightarrow> [] | Some d \<Rightarrow> d # digits_prefix rest)"

definition digits_value :: "nat list \<Rightarrow> nat" where
  "digits_value ds = foldl (\<lambda>acc d. 10 * acc + d) 0 ds"

definition parseInt10 :: "string \<Rightarrow> int option" where
  "parseInt10 s =
     (let t = dropWhile is_space s;
          neg = (t \<noteq> [] \<and> hd t = CHR ''-'');
          u = (if t \<noteq> [] \<and> (hd t = CHR ''-'' \<or> hd t = CHR ''+'') then tl t else t);
          ds = digits_prefix u
      in if ds = [] then None
         else Some (if neg then - int (digits_value ds) else int (digits_value ds)))"

definition toFixed_rat :: "rat \<Rightarrow> nat \<Rightarrow> string" where
  "toFixed_rat q f =
     (let x = \<bar>q\<bar>;
          n = nat \<lfloor>x * 10 ^ f + 1 / 2\<rfloor>;
          ds = dec_nat n;
          padded = replicate (Suc f - length ds) CHR ''0'' @ ds;
          k = length padded - f
      in (if q < 0 then ''-'' else [])
         @ (if f = 0 then padded else take k padded @ ''.'' @ drop k padded))"

definition sample_summary :: "rat \<Rightarrow> StatisticalSummary" where
  "sample_summary m = \<lparr>mean = m, median = m, stddev = 2, min_val = m - 2, max_val = m + 2, runs = 10\<rparr>"

definition sample_stats :: "string \<Rightarrow> page \<Rightarrow> rat \<Rightarrow> AggregatedStats" where
  "sample_stats fw p bytes =
     \<lparr>framework = fw, page = p,
      jsTransferred = sample_summary (bytes / 4),
      jsUncompressed = sample_summary bytes,
      compressionRatio = 75,
      performanceScore = sample_summary 98,
      fcp = sample_summary 812, lcp = sample_summary 1040, tbt = sample_summary 0,
      cls = sample_summary 0, si = sample_summary 900,
      compressionType = ''br'', chromeVersion = ''131.0'',
      measurementTimestamp = ''2025-01-01T00:00:00.000Z''\<rparr>"

text \<open>
  A run in which every build directory exists, the subprocess for Nuxt fails, the one for
  Marko prints what \<open>marko\<close> says and every other one prints an empty array.
\<close>

definition sample_run :: "string list \<Rightarrow> jsval \<Rightarrow> env" where
  "sample_run args marko =
     \<lparr>argv = args,
      cwd = ''/repo'',
      parseInt = parseInt10,
      toFixed = toFixed_rat,
      toString_other = (\<lambda>q. ''?''),
      string_toNumber = (\<lambda>s. NaN),
      string_iter = map (\<lambda>c. [c]),
      sort_inconsistent = (\<lambda>rs. rs),
      existsSync = (\<lambda>p. p \<noteq> ''/repo/metrics''),
      execSync = (\<lambda>cmd. if cmd = ''tsx scripts/measure-single.ts '' @ dquote @ ''Nuxt'' @ dquote
                               @ '' --runs 10 --network 4g''
                          then None
                          else if cmd = ''tsx scripts/measure-single.ts '' @ dquote @ ''Marko'' @ dquote
                               @ '' --runs 10 --network 4g''
                          then Some ''marko'' else Some ''[]''),
      JSON_parse = (\<lambda>out. if out = ''marko'' then Some marko
                           else if out = ''[]'' then Some (JArr []) else None),
      toISOString = (\<lambda>k. ''2025-01-01T00:00:0'' @ dec_nat k @ ''.000Z'')\<rparr>"

text \<open>Marko prints two records of the declared type.\<close>

definition sample_env :: "string list \<Rightarrow> env" where
  "sample_env args =
     sample_run args (JArr [encode (sample_stats ''Marko'' Home 40960),
                            encode (sample_stats ''Marko'' Board 51200)])"

text \<open>The sample environment with the build directory of the Astro variant missing.\<close>

definition sample_env_unbuilt :: env where
  "sample_env_unbuilt = (sample_env [])\<lparr>existsSync := (\<lambda>p. p \<noteq> ''/repo/kanban-htmx/dist'')\<rparr>"

text \<open>Marko prints one record whose page is neither \<open>home\<close> nor \<open>board\<close>.\<close>

definition other_page_record :: jsval where
  "other_page_record = set_field ''page'' (JStr ''other'') (encode (sample_stats ''Marko'' Home 40960))"

definition sample_env_other_page :: env where
  "sample_env_other_page = sample_run [] (JArr [other_page_record])"

text \<open>
  Marko prints one record whose \<open>performanceScore.stddev\<close> is \<open>null\<close> (which is how
  \<open>JSON.stringify\<close> writes a \<open>NaN\<close>).
\<close>

definition null_stddev_record :: jsval where
  "null_stddev_record =
     set_field ''performanceScore'' (set_field ''stddev'' JNull (encode_summary (sample_summary 98)))
       (encode (sample_stats ''Marko'' Board 51200))"

definition sample_env_null_stddev :: env where
  "sample_env_null_stddev = sample_run [] (JArr [null_stddev_record])"

text \<open>The second entry of \<open>FRAMEWORKS\<close>.\<close>

definition nuxt :: framework_entry where
  "nuxt = \<lparr>name = ''Nuxt'', dir = ''kanban-nuxt'', buildCheck = [''.output'', ''dist'']\<rparr>"

subsection \<open>Closed forms of the two loops\<close>

text \<open>
  What the measurement loop computes, written without the loop: the values collected from
  the frameworks whose attempt succeeded, the names of those whose attempt failed, and the
  effects of the attempt on one framework. The lemmas \<open>measureAll_allResults\<close>,
  \<open>measureAll_failed\<close> and \<open>measureAll_trace\<close> below prove that the loop produces exactly
  these.
\<close>

definition measured_results :: "env \<Rightarrow> int \<Rightarrow> string \<Rightarrow> framework_entry list \<Rightarrow> jsval list" where
  "measured_results e numRuns nc fws =
     concat (map (\<lambda>fw. case try_measure e numRuns nc fw of None \<Rightarrow> [] | Some rs \<Rightarrow> rs) fws)"

definition failed_names :: "env \<Rightarrow> int \<Rightarrow> string \<Rightarrow> framework_entry list \<Rightarrow> string list" where
  "failed_names e numRuns nc fws = map name (filter (\<lambda>fw. try_measure e numRuns nc fw = None) fws)"

definition measure_events :: "env \<Rightarrow> int \<Rightarrow> string \<Rightarrow> framework_entry \<Rightarrow> event list" where
  "measure_events e numRuns nc fw =
     [Log (L_rule 1), Log (L_measuring (name fw)), Log (L_rule 0), Exec (measure_command e numRuns nc fw)]
     @ (if try_measure e numRuns nc fw = None then [Log (L_failed_to_measure (name fw))] else [])"

text \<open>
  The effects of a run up to the measurement loop when every build is found (lemma
  \<open>run_with_built\<close>).
\<close>

definition preamble :: "int \<Rightarrow> string \<Rightarrow> event list" where
  "preamble n c =
     [Log L_banner, Log (L_runs_per_page n), Log (L_network c), Log (L_frameworks (length FRAMEWORKS)),
      Log L_validating]
     @ map (\<lambda>fw. Log (L_build_found (name fw))) FRAMEWORKS @ [Log L_all_validated]"

text \<open>The two ways the command line is rejected: what is printed before \<open>process.exit(1)\<close>.\<close>

definition arg_error :: "event list \<Rightarrow> bool" where
  "arg_error t \<longleftrightarrow> t = [Log L_runs_error] \<or> (\<exists>w. t = [Log (L_network_error w), Log L_available_conditions])"

section \<open>Properties\<close>

subsection \<open>Values that conform\<close>

lemma decode_summary_fields:
  assumes "decode_summary s = Some x"
  shows "getprop s ''median'' = Some (JNum (median x))"
    and "getprop s ''stddev'' = Some (JNum (stddev x))"
    and "getprop s ''runs'' = Some (JNum (runs x))"
  using assms unfolding decode_summary_def num_field_def
  by (auto simp: bind_eq_Some_conv split: option.splits jsval.splits)

lemma summary_field_fields:
  assumes "summary_field v k = Some x"
  shows "\<exists>s. getprop v k = Some s \<and> getprop s ''median'' = Some (JNum (median x))
           \<and> getprop s ''stddev'' = Some (JNum (stddev x))
           \<and> getprop s ''runs'' = Some (JNum (runs x))"
  using assms unfolding summary_field_def
  by (auto simp: bind_eq_Some_conv decode_summary_fields)

lemma num_field_get: "num_field v k = Some q \<Longrightarrow> getprop v k = Some (JNum q)"
  unfolding num_field_def by (auto split: option.splits jsval.splits)

lemma str_field_get: "str_field v k = Some s \<Longrightarrow> getprop v k = Some (JStr s)"
  unfolding str_field_def by (auto split: option.splits jsval.splits)

lemma page_field_get: "page_field v = Some p \<Longrightarrow> getprop v ''page'' = Some (JStr (page_str p))"
  unfolding page_field_def page_str_def
  by (auto split: option.splits jsval.splits if_splits)

lemma decode_fields:
  assumes "decode v = Some a"
  shows "getprop v ''framework'' = Some (JStr (framework a))"
    and "getprop v ''page'' = Some (JStr (page_str (page a)))"
    and "summary_field v ''jsTransferred'' = Some (jsTransferred a)"
    and "summary_field v ''jsUncompressed'' = Some (jsUncompressed a)"
    and "getprop v ''compressionRatio'' = Some (JNum (compressionRatio a))"
    and "summary_field v ''performanceScore'' = Some (performanceScore a)"
    and "summary_field v ''fcp'' = Some (fcp a)"
    and "summary_field v ''lcp'' = Some (lcp a)"
    and "getprop v ''compressionType'' = Some (JStr (compressionType a))"
    and "getprop v ''chromeVersion'' = Some (JStr (chromeVersion a))"
  using assms unfolding decode_def
  by (auto simp: bind_eq_Some_conv dest: num_field_get str_field_get page_field_get)

lemma decode_not_nullish: "decode v = Some a \<Longrightarrow> v \<noteq> JNull \<and> v \<noteq> JUndefined"
  by (auto dest!: decode_fields(1) simp: getprop_def)

lemma formatKB_num: "formatKB e (JNum q) = toFixed e (q / 1024) 1"
  by (simp add: formatKB_def toNumber_def)

lemma table_row_conforming:
  assumes "decode v = Some a"
  shows "table_row e v = Some (row_text e a)"
proof -
  note d = decode_fields [OF assms]
  obtain u where u: "getprop v ''jsUncompressed'' = Some u"
      "getprop u ''median'' = Some (JNum (median (jsUncompressed a)))"
      "getprop u ''stddev'' = Some (JNum (stddev (jsUncompressed a)))"
    using summary_field_fields [OF d(4)] by blast
  obtain t where t: "getprop v ''jsTransferred'' = Some t"
      "getprop t ''median'' = Some (JNum (median (jsTransferred a)))"
      "getprop t ''stddev'' = Some (JNum (stddev (jsTransferred a)))"
    using summary_field_fields [OF d(3)] by blast
  obtain ps where ps: "getprop v ''performanceScore'' = Some ps"
      "getprop ps ''median'' = Some (JNum (median (performanceScore a)))"
      "getprop ps ''stddev'' = Some (JNum (stddev (performanceScore a)))"
    using summary_field_fields [OF d(6)] by blast
  obtain f where f: "getprop v ''fcp'' = Some f"
      "getprop f ''median'' = Some (JNum (median (fcp a)))"
      "getprop f ''stddev'' = Some (JNum (stddev (fcp a)))"
    using summary_field_fields [OF d(7)] by blast
  obtain l where l: "getprop v ''lcp'' = Some l"
      "getprop l ''median'' = Some (JNum (median (lcp a)))"
      "getprop l ''stddev'' = Some (JNum (stddev (lcp a)))"
    using summary_field_fields [OF d(8)] by blast
  show ?thesis
    unfolding table_row_def
    by (simp add: u t ps f l d(1) d(5) formatKB_num toFixed_call_def plus_minus_def Let_def)
qed

lemma bundle_key_conforming:
  assumes "decode v = Some a"
  shows "bundle_key e v = Some (Fin (median (jsUncompressed a)))"
proof -
  obtain u where u: "getprop v ''jsUncompressed'' = Some u"
      "getprop u ''median'' = Some (JNum (median (jsUncompressed a)))"
    using summary_field_fields [OF decode_fields(4) [OF assms]] by blast
  show ?thesis
    unfolding bundle_key_def by (simp add: u toNumber_def)
qed

lemma fin_key_conforming: "decode v = Some a \<Longrightarrow> fin_key e v = median (jsUncompressed a)"
  by (simp add: fin_key_def bundle_key_conforming)

lemma legacy_of_conforming:
  assumes "decode v = Some a"
  shows "legacy_of v = Some (legacy_text a)"
proof -
  note d = decode_fields [OF assms]
  obtain u where u: "getprop v ''jsUncompressed'' = Some u"
      "getprop u ''median'' = Some (JNum (median (jsUncompressed a)))"
    using summary_field_fields [OF d(4)] by blast
  obtain t where t: "getprop v ''jsTransferred'' = Some t"
      "getprop t ''median'' = Some (JNum (median (jsTransferred a)))"
    using summary_field_fields [OF d(3)] by blast
  show ?thesis
    unfolding legacy_of_def by (simp add: u t d(1) d(5))
qed

lemma bundle_line_conforming:
  assumes "decode v = Some a"
  shows "bundle_line v = Some (L_bundle_line v)"
proof -
  note d = decode_fields [OF assms]
  obtain u where u: "getprop v ''jsUncompressed'' = Some u"
      "getprop u ''median'' = Some (JNum (median (jsUncompressed a)))"
    using summary_field_fields [OF d(4)] by blast
  obtain t where t: "getprop v ''jsTransferred'' = Some t"
      "getprop t ''median'' = Some (JNum (median (jsTransferred a)))"
    using summary_field_fields [OF d(3)] by blast
  obtain ps where ps: "getprop v ''performanceScore'' = Some ps"
      "getprop ps ''median'' = Some (JNum (median (performanceScore a)))"
    using summary_field_fields [OF d(6)] by blast
  show ?thesis
    unfolding bundle_line_def by (simp add: u t ps d(1) d(5))
qed

subsection \<open>Filtering and sorting values that conform\<close>

lemma filter_page_total:
  "JNull \<notin> set rs \<Longrightarrow> JUndefined \<notin> set rs \<Longrightarrow>
   filter_page p rs = Some (filter (\<lambda>r. getprop r ''page'' = Some (JStr p)) rs)"
proof (induction rs)
  case Nil
  then show ?case by simp
next
  case (Cons r rs)
  then obtain v where v: "getprop r ''page'' = Some v"
    by (cases r) (auto simp: getprop_def)
  with Cons show ?case by auto
qed

lemma filter_page_conforming:
  assumes "list_all2 (\<lambda>v a. decode v = Some a) vs records"
  shows "\<exists>ws. filter_page (page_str p) vs = Some ws
           \<and> list_all2 (\<lambda>v a. decode v = Some a) ws (filter (\<lambda>a. page a = p) records)"
  using assms
proof (induction rule: list_all2_induct)
  case Nil
  then show ?case by simp
next
  case (Cons v vs a records)
  then obtain ws where ws: "filter_page (page_str p) vs = Some ws"
      "list_all2 (\<lambda>v a. decode v = Some a) ws (filter (\<lambda>a. page a = p) records)"
    by blast
  have pg: "getprop v ''page'' = Some (JStr (page_str (page a)))"
    using decode_fields(2) [OF Cons.hyps(1)] .
  have inj: "page_str (page a) = page_str p \<longleftrightarrow> page a = p"
    by (cases "page a"; cases p) (simp_all add: page_str_def)
  show ?case
    using ws Cons.hyps(1) by (simp add: pg inj)
qed

lemma insort_key_related:
  assumes "list_all2 R xs ys" and "R x y" and "\<And>x y. R x y \<Longrightarrow> f x = g y"
  shows "list_all2 R (insort_key f x xs) (insort_key g y ys)"
  using assms(1)
proof (induction rule: list_all2_induct)
  case Nil
  then show ?case using assms(2) by simp
next
  case (Cons x' xs y' ys)
  then show ?case using assms(2) assms(3) [OF assms(2)] assms(3) [OF Cons.hyps(1)] by simp
qed

lemma sort_key_related:
  assumes "list_all2 R xs ys" and "\<And>x y. R x y \<Longrightarrow> f x = g y"
  shows "list_all2 R (sort_key f xs) (sort_key g ys)"
  using assms(1)
proof (induction rule: list_all2_induct)
  case Nil
  then show ?case by simp
next
  case (Cons x xs y ys)
  then show ?case
    by (simp add: insort_key_related [where R = R, OF _ _ assms(2)])
qed

lemma sort_key_short: "length xs < 2 \<Longrightarrow> sort_key f xs = xs"
  by (cases xs) (auto simp: length_Suc_conv)

lemma sort_by_bundle_conforming:
  assumes "list_all2 (\<lambda>v a. decode v = Some a) vs records"
  shows "\<exists>ws. sort_by_bundle e vs = Some ws
           \<and> list_all2 (\<lambda>v a. decode v = Some a) ws
                (sort_key (\<lambda>a. median (jsUncompressed a)) records)"
proof (cases "length vs < 2")
  case True
  then have "length records < 2"
    using list_all2_lengthD [OF assms] by simp
  then show ?thesis
    using True assms by (simp add: sort_by_bundle_def sort_key_short)
next
  case False
  have keys: "\<forall>v \<in> set vs. \<exists>q. bundle_key e v = Some (Fin q)"
  proof
    fix v assume "v \<in> set vs"
    then obtain a where "decode v = Some a"
      using assms by (auto simp: list_all2_conv_all_nth in_set_conv_nth)
    then show "\<exists>q. bundle_key e v = Some (Fin q)"
      by (auto simp: bundle_key_conforming)
  qed
  have n1: "None \<notin> set (map (bundle_key e) vs)"
    using keys by force
  have n2: "Some NaN \<notin> set (map (bundle_key e) vs)"
    using keys by force
  have "list_all2 (\<lambda>v a. decode v = Some a) (sort_key (fin_key e) vs)
          (sort_key (\<lambda>a. median (jsUncompressed a)) records)"
    by (rule sort_key_related [OF assms]) (simp add: fin_key_conforming)
  then show ?thesis
    using False n1 n2 by (simp add: sort_by_bundle_def)
qed

lemma sortedByBundle_conforming:
  assumes "list_all2 (\<lambda>v a. decode v = Some a) vs records"
  shows "\<exists>ws. sortedByBundle e vs p = Some ws
           \<and> list_all2 (\<lambda>v a. decode v = Some a) ws (page_rows p records)"
proof -
  obtain fs where fs: "filter_page (page_str p) vs = Some fs"
      "list_all2 (\<lambda>v a. decode v = Some a) fs (filter (\<lambda>a. page a = p) records)"
    using filter_page_conforming [OF assms] by blast
  from sort_by_bundle_conforming [OF fs(2), of e] fs(1)
  show ?thesis by (simp add: sortedByBundle_def)
qed

subsection \<open>The markdown table\<close>

lemma append_rows_conforming:
  assumes "list_all2 (\<lambda>v a. decode v = Some a) ws rows"
  shows "append_rows e ws markdown = Some (markdown @ concat (map (row_text e) rows))"
  using assms
proof (induction arbitrary: markdown rule: list_all2_induct)
  case Nil
  then show ?case by simp
next
  case (Cons v ws a rows)
  show ?case
    by (simp add: table_row_conforming [OF Cons.hyps(1)] Cons.IH)
qed

lemma footer_runs_conforming:
  assumes "list_all2 (\<lambda>v a. decode v = Some a) ws rows"
  shows "footer_runs ws =
     Some (JNum (case rows of [] \<Rightarrow> 3
                 | a # _ \<Rightarrow> if runs (jsTransferred a) = 0 then 3 else runs (jsTransferred a)))"
proof (cases ws)
  case Nil
  with assms show ?thesis by (simp add: footer_runs_def first_elem_def)
next
  case (Cons v ws')
  with assms obtain a rows' where r: "rows = a # rows'" "decode v = Some a"
    by (auto simp: list_all2_Cons1)
  obtain t where t: "getprop v ''jsTransferred'' = Some t"
      "getprop t ''runs'' = Some (JNum (runs (jsTransferred a)))"
    using summary_field_fields [OF decode_fields(3) [OF r(2)]] by blast
  show ?thesis
    using decode_not_nullish [OF r(2)]
    by (simp add: Cons r footer_runs_def first_elem_def t or_else_def)
qed

lemma footer_compression_conforming:
  assumes "list_all2 (\<lambda>v a. decode v = Some a) ws rows"
  shows "footer_compression ws =
     JStr (case rows of [] \<Rightarrow> ''gzip''
           | a # _ \<Rightarrow> if compressionType a = [] then ''gzip'' else compressionType a)"
proof (cases ws)
  case Nil
  with assms show ?thesis
    by (simp add: footer_compression_def first_elem_def opt_getprop_def getprop_def or_else_def)
next
  case (Cons v ws')
  with assms obtain a rows' where r: "rows = a # rows'" "decode v = Some a"
    by (auto simp: list_all2_Cons1)
  show ?thesis
    by (simp add: Cons r footer_compression_def first_elem_def opt_getprop_def
        decode_fields(9) [OF r(2)] or_else_def)
qed

lemma generateMarkdownTable_conforming:
  assumes "list_all2 (\<lambda>v a. decode v = Some a) results records"
  shows "generateMarkdownTable e results p = Some (table_text e p (page_rows p records))"
proof -
  obtain ws where ws: "sortedByBundle e results p = Some ws"
      "list_all2 (\<lambda>v a. decode v = Some a) ws (page_rows p records)"
    using sortedByBundle_conforming [OF assms] by blast
  show ?thesis
    unfolding generateMarkdownTable_def
    by (simp add: ws(1) append_rows_conforming [OF ws(2)] footer_runs_conforming [OF ws(2)]
        footer_compression_conforming [OF ws(2)] table_head_def table_foot_def plus_minus_def)
qed

subsection \<open>The loops of main\<close>

lemma check_dirs_iff:
  "check_dirs e projectRoot ds \<longleftrightarrow> (\<exists>d \<in> set ds. existsSync e (join_path projectRoot d))"
  by (induction ds) auto

lemma checkBuildExists_iff:
  "checkBuildExists e fw \<longleftrightarrow>
     (\<exists>d \<in> set (buildCheck fw). existsSync e (join_path (join_path (cwd e) (dir fw)) d))"
  by (simp add: checkBuildExists_def check_dirs_iff)

lemma validateBuilds_missing:
  "missingBuilds (validateBuilds e fws s) =
     missingBuilds s @ map name (filter (\<lambda>fw. \<not> checkBuildExists e fw) fws)"
  by (induction fws arbitrary: s) (simp_all add: validateOne_def)

lemma validateBuilds_trace:
  "v_trace (validateBuilds e fws s) =
     v_trace s @ map (\<lambda>fw. Log (if checkBuildExists e fw then L_build_found (name fw)
                                 else L_build_not_found (name fw))) fws"
  by (induction fws arbitrary: s) (simp_all add: validateOne_def)

lemma measureAll_allResults:
  "allResults (measureAll e n c fws s) = allResults s @ measured_results e n c fws"
  by (induction fws arbitrary: s)
     (simp_all add: measureOne_def measured_results_def Let_def split: option.splits)

lemma measureAll_failed:
  "failedFrameworks (measureAll e n c fws s) = failedFrameworks s @ failed_names e n c fws"
  by (induction fws arbitrary: s)
     (simp_all add: measureOne_def failed_names_def Let_def split: option.splits)

lemma measureAll_trace:
  "m_trace (measureAll e n c fws s) = m_trace s @ concat (map (measure_events e n c) fws)"
  by (induction fws arbitrary: s)
     (simp_all add: measureOne_def measure_events_def Let_def split: option.splits)

subsection \<open>Reading traces\<close>

lemma execs_append: "execs (xs @ ys) = execs xs @ execs ys"
  by (induction xs rule: execs.induct) simp_all

lemma writes_append: "writes (xs @ ys) = writes xs @ writes ys"
  by (induction xs rule: writes.induct) simp_all

lemma written_results_append: "written_results (xs @ ys) = written_results xs @ written_results ys"
  by (induction xs rule: written_results.induct) simp_all

lemma written_results_writes:
  "writes t = [] \<Longrightarrow> written_results t = []"
  by (induction t rule: written_results.induct) simp_all

lemma execs_logs: "execs (map (\<lambda>x. Log (f x)) xs) = []"
  by (induction xs) simp_all

lemma writes_logs: "writes (map (\<lambda>x. Log (f x)) xs) = []"
  by (induction xs) simp_all

lemma execs_measure_events:
  "execs (concat (map (measure_events e n c) fws)) = map (measure_command e n c) fws"
  by (induction fws) (simp_all add: execs_append measure_events_def)

lemma writes_measure_events: "writes (concat (map (measure_events e n c) fws)) = []"
  by (induction fws) (simp_all add: writes_append measure_events_def)

lemma print_lines_quiet:
  "execs (fst (print_lines rs)) = [] \<and> writes (fst (print_lines rs)) = []"
  by (induction rs) (auto split: option.splits prod.splits)

lemma print_lines_quiet':
  "print_lines rs = (printed, ok) \<Longrightarrow> execs printed = [] \<and> writes printed = []"
  using print_lines_quiet [of rs] by simp

lemma summary_events_quiet:
  "execs (summary_events e rs failed) = [] \<and> writes (summary_events e rs failed) = []"
  unfolding summary_events_def
  by (auto simp: execs_append writes_append dest: print_lines_quiet'
      split: option.splits prod.splits bool.splits)

lemma execs_generateReports: "execs (generateReports e n c rs failed) = []"
  unfolding generateReports_def
  by (auto simp: execs_append summary_events_quiet split: option.splits)

lemma writes_generateReports:
  "writes (generateReports e n c rs failed) =
     (resultsPath e, Json_results (resultsData e n c rs))
     # (case report_markdown e n rs failed of
          None \<Rightarrow> []
        | Some markdown \<Rightarrow>
            (markdownPath e, Markdown markdown)
            # (case legacySummary e rs of
                 None \<Rightarrow> []
               | Some legacy \<Rightarrow> [(legacyPath e, Json_legacy legacy)]))"
  unfolding generateReports_def
  by (auto simp: writes_append summary_events_quiet split: option.splits)

lemma execs_preamble: "execs (preamble n c) = []"
  by (simp add: preamble_def execs_append execs_logs)

lemma writes_preamble: "writes (preamble n c) = []"
  by (simp add: preamble_def writes_append writes_logs)

subsection \<open>A run after the command line\<close>

lemma run_with_built:
  assumes "\<forall>fw \<in> set FRAMEWORKS. checkBuildExists e fw"
  shows "run_with e n c =
     (preamble n c @ concat (map (measure_events e n c) FRAMEWORKS)
      @ generateReports e n c (measured_results e n c FRAMEWORKS) (failed_names e n c FRAMEWORKS),
      Completed)"
proof -
  have f: "filter (\<lambda>fw. \<not> checkBuildExists e fw) FRAMEWORKS = []"
    using assms by (simp add: filter_empty_conv)
  have m: "map (\<lambda>fw. Log (if checkBuildExists e fw then L_build_found (name fw)
                            else L_build_not_found (name fw))) FRAMEWORKS
           = map (\<lambda>fw. Log (L_build_found (name fw))) FRAMEWORKS"
    using assms by (intro map_cong) simp_all
  show ?thesis
    unfolding run_with_def Let_def preamble_def
    by (simp add: validateBuilds_missing validateBuilds_trace f m measureAll_trace
        measureAll_allResults measureAll_failed del: validateBuilds.simps measureAll.simps)
qed

lemma run_with_missing:
  assumes "fw \<in> set FRAMEWORKS" and "\<not> checkBuildExists e fw"
  shows "snd (run_with e n c) = Exited 1 \<and> execs (fst (run_with e n c)) = []
         \<and> writes (fst (run_with e n c)) = []"
proof -
  have f: "filter (\<lambda>fw. \<not> checkBuildExists e fw) FRAMEWORKS \<noteq> []"
    using assms by (auto simp: filter_empty_conv)
  show ?thesis
    unfolding run_with_def Let_def
    using f by (simp add: validateBuilds_missing validateBuilds_trace execs_append writes_append
        execs_logs writes_logs del: validateBuilds.simps)
qed

lemma main_parsed:
  "parseArgs e (argv e) 10 ''4g'' = Inr (n, c) \<Longrightarrow> main e = run_with e n c"
  by (simp add: main_def)

lemma main_built:
  assumes "parseArgs e (argv e) 10 ''4g'' = Inr (n, c)"
    and "\<forall>fw \<in> set FRAMEWORKS. checkBuildExists e fw"
  shows "main e =
     (preamble n c @ concat (map (measure_events e n c) FRAMEWORKS)
      @ generateReports e n c (measured_results e n c FRAMEWORKS) (failed_names e n c FRAMEWORKS),
      Completed)"
  using assms by (simp add: main_parsed run_with_built)

lemma writes_main_built:
  assumes "parseArgs e (argv e) 10 ''4g'' = Inr (n, c)"
    and "\<forall>fw \<in> set FRAMEWORKS. checkBuildExists e fw"
  shows "writes (fst (main e)) =
     writes (generateReports e n c (measured_results e n c FRAMEWORKS) (failed_names e n c FRAMEWORKS))"
  by (simp add: main_built [OF assms] writes_append writes_preamble writes_measure_events)

subsection \<open>The reports for values that conform\<close>

lemma first_or_conforming:
  assumes "list_all2 (\<lambda>v a. decode v = Some a) vs records"
  shows "first_or vs ''chromeVersion'' (JStr ''unknown'') =
           JStr (case records of [] \<Rightarrow> ''unknown''
                 | a # _ \<Rightarrow> if chromeVersion a = [] then ''unknown'' else chromeVersion a)"
    and "first_or vs ''compressionType'' (JStr ''gzip'') =
           JStr (case records of [] \<Rightarrow> ''gzip''
                 | a # _ \<Rightarrow> if compressionType a = [] then ''gzip'' else compressionType a)"
proof -
  show "first_or vs ''chromeVersion'' (JStr ''unknown'') =
           JStr (case records of [] \<Rightarrow> ''unknown''
                 | a # _ \<Rightarrow> if chromeVersion a = [] then ''unknown'' else chromeVersion a)"
  proof (cases vs)
    case Nil
    with assms show ?thesis
      by (simp add: first_or_def first_elem_def opt_getprop_def getprop_def or_else_def)
  next
    case (Cons v vs')
    with assms obtain a rows' where r: "records = a # rows'" "decode v = Some a"
      by (auto simp: list_all2_Cons1)
    show ?thesis
      by (simp add: Cons r first_or_def first_elem_def opt_getprop_def
          decode_fields(10) [OF r(2)] or_else_def)
  qed
  show "first_or vs ''compressionType'' (JStr ''gzip'') =
           JStr (case records of [] \<Rightarrow> ''gzip''
                 | a # _ \<Rightarrow> if compressionType a = [] then ''gzip'' else compressionType a)"
  proof (cases vs)
    case Nil
    with assms show ?thesis
      by (simp add: first_or_def first_elem_def opt_getprop_def getprop_def or_else_def)
  next
    case (Cons v vs')
    with assms obtain a rows' where r: "records = a # rows'" "decode v = Some a"
      by (auto simp: list_all2_Cons1)
    show ?thesis
      by (simp add: Cons r first_or_def first_elem_def opt_getprop_def
          decode_fields(9) [OF r(2)] or_else_def)
  qed
qed

lemma report_head_conforming:
  assumes "list_all2 (\<lambda>v a. decode v = Some a) vs records"
  shows "report_head e n vs = report_head_text e n records"
  by (simp add: report_head_def first_or_conforming [OF assms])

lemma join_with_comma_list: "names \<noteq> [] \<Longrightarrow> join_with '', '' names = comma_list names"
  by (induction "'', ''" names rule: join_with.induct) simp_all

lemma failed_section_text:
  "failed_section failed =
     (if failed = [] then []
      else ''## Failed Measurements\<newline>\<newline>The following frameworks failed to measure: ''
           @ comma_list failed @ ''\<newline>\<newline>'')"
  by (simp add: failed_section_def join_comma_def join_with_comma_list)

lemma report_markdown_conforming:
  assumes "list_all2 (\<lambda>v a. decode v = Some a) vs records"
  shows "report_markdown e n vs failed =
     Some (report_head_text e n records
           @ table_text e Board (page_rows Board records)
           @ table_text e Home (page_rows Home records)
           @ failed_section failed)"
  unfolding report_markdown_def
  by (simp add: generateMarkdownTable_conforming [OF assms] report_head_conforming [OF assms])

lemma those_map_related:
  assumes "list_all2 R xs ys" and "\<And>x y. R x y \<Longrightarrow> f x = Some (g y)"
  shows "those (map f xs) = Some (map g ys)"
  using assms(1)
  by (induction rule: list_all2_induct) (simp_all add: assms(2))

lemma legacy_page_conforming:
  assumes "list_all2 (\<lambda>v a. decode v = Some a) vs records"
  shows "legacy_page e vs p = Some (map legacy_text (page_rows p records))"
proof -
  obtain ws where ws: "sortedByBundle e vs p = Some ws"
      "list_all2 (\<lambda>v a. decode v = Some a) ws (page_rows p records)"
    using sortedByBundle_conforming [OF assms] by blast
  have "those (map legacy_of ws) = Some (map legacy_text (page_rows p records))"
    by (rule those_map_related [OF ws(2)]) (rule legacy_of_conforming)
  then show ?thesis
    by (simp add: legacy_page_def ws(1))
qed

lemma legacySummary_conforming:
  assumes "list_all2 (\<lambda>v a. decode v = Some a) vs records"
  shows "legacySummary e vs =
     Some \<lparr>ls_timestamp = toISOString e 2,
           ls_note = ''Bundle sizes use raw (uncompressed) as primary, compressed in parentheses'',
           ls_boardPage = map legacy_text (page_rows Board records),
           ls_homePage = map legacy_text (page_rows Home records)\<rparr>"
  by (simp add: legacySummary_def legacy_page_conforming [OF assms])

subsection \<open>The legacy summary does not throw after the markdown report\<close>

lemma append_rows_rows:
  "append_rows e ws markdown = Some out \<Longrightarrow> \<forall>r \<in> set ws. table_row e r \<noteq> None"
  by (induction ws arbitrary: markdown) (auto split: option.splits)

lemma table_row_legacy: "table_row e r \<noteq> None \<Longrightarrow> legacy_of r \<noteq> None"
  unfolding table_row_def legacy_of_def
  by (auto simp: bind_eq_Some_conv bind_eq_None_conv)

lemma those_map_total: "\<forall>x \<in> set xs. f x \<noteq> None \<Longrightarrow> those (map f xs) \<noteq> None"
  by (induction xs) auto

lemma table_legacy_page:
  assumes "generateMarkdownTable e rs p = Some out"
  shows "legacy_page e rs p \<noteq> None"
proof -
  from assms obtain ws markdown where ws: "sortedByBundle e rs p = Some ws"
      "append_rows e ws (table_head p) = Some markdown"
    unfolding generateMarkdownTable_def by (auto simp: bind_eq_Some_conv)
  have "\<forall>r \<in> set ws. legacy_of r \<noteq> None"
    using append_rows_rows [OF ws(2)] table_row_legacy by blast
  then have "those (map legacy_of ws) \<noteq> None"
    by (rule those_map_total)
  then show ?thesis
    by (simp add: legacy_page_def ws(1))
qed

lemma report_markdown_legacy:
  assumes "report_markdown e n rs failed = Some markdown"
  shows "legacySummary e rs \<noteq> None"
proof -
  from assms obtain b h where "generateMarkdownTable e rs Board = Some b"
      "generateMarkdownTable e rs Home = Some h"
    unfolding report_markdown_def by (auto simp: bind_eq_Some_conv Let_def)
  then have "legacy_page e rs Board \<noteq> None" "legacy_page e rs Home \<noteq> None"
    by (auto dest: table_legacy_page)
  then show ?thesis
    by (auto simp: legacySummary_def bind_eq_None_conv)
qed

subsection \<open>The command line\<close>

lemma parseArgs_rejects:
  "parseInt e ''--runs'' = None \<Longrightarrow> parseInt e ''--network'' = None \<Longrightarrow>
   args = pre @ a # v # post \<Longrightarrow>
   (a = ''--runs'' \<and> (case parseInt e v of None \<Rightarrow> True | Some k \<Rightarrow> k < 1))
     \<or> (a = ''--network'' \<and> v \<notin> set [''4g'', ''3g'', ''slow-3g'']) \<Longrightarrow>
   \<exists>t. parseArgs e args n c = Inl t \<and> arg_error t"
proof (induction e args n c arbitrary: pre rule: parseArgs.induct)
  case (1 e numRuns nc)
  then show ?case by simp
next
  case (2 e a0 numRuns nc)
  then show ?case by (cases pre) simp_all
next
  case (3 e a0 v0 rest numRuns nc)
  note fr = "3.prems"(1) and fn = "3.prems"(2) and split_eq = "3.prems"(3) and bad = "3.prems"(4)
  show ?case
  proof (cases pre)
    case Nil
    with split_eq have "a0 = a" "v0 = v" by simp_all
    with bad show ?thesis
      by (auto simp: arg_error_def split: option.splits)
  next
    case (Cons x pre1)
    note outer = Cons
    show ?thesis
    proof (cases pre1)
      case Nil
      with outer split_eq have eq: "a0 = x" "v0 = a" "rest = v # post" by simp_all
      have flag: "a = ''--runs'' \<or> a = ''--network''" using bad by auto
      have pa: "parseInt e a = None" using flag fr fn by auto
      have na: "a \<notin> set [''4g'', ''3g'', ''slow-3g'']" using flag by auto
      have rec: "\<exists>t. parseArgs e (a # v # post) numRuns nc = Inl t \<and> arg_error t"
        using bad by (auto simp: arg_error_def split: option.splits)
      show ?thesis
        using eq pa na rec by (auto simp: arg_error_def)
    next
      case (Cons y pre2)
      with outer split_eq have eq: "a0 = x" "v0 = y" "rest = pre2 @ a # v # post" by simp_all
      have vr: "v0 # rest = (y # pre2) @ a # v # post" using eq by simp
      show ?thesis
      proof (cases "a0 = ''--runs''")
        case True
        show ?thesis
        proof (cases "parseInt e v0")
          case None
          with True show ?thesis by (simp add: arg_error_def)
        next
          case (Some k)
          show ?thesis
          proof (cases "k < 1")
            case True
            with Some \<open>a0 = ''--runs''\<close> show ?thesis by (simp add: arg_error_def)
          next
            case False
            from "3.IH"(1) [OF \<open>a0 = ''--runs''\<close> Some False fr fn eq(3) bad]
            show ?thesis using \<open>a0 = ''--runs''\<close> Some False by simp
          qed
        qed
      next
        case nr: False
        show ?thesis
        proof (cases "a0 = ''--network''")
          case True
          show ?thesis
          proof (cases "v0 \<in> set [''4g'', ''3g'', ''slow-3g'']")
            case inl: True
            from "3.IH"(2) [OF nr True inl fr fn eq(3) bad]
            show ?thesis using nr True inl by simp
          next
            case False
            with nr True show ?thesis by (simp add: arg_error_def)
          qed
        next
          case False
          from "3.IH"(3) [OF nr False fr fn vr bad]
          show ?thesis using nr False by simp
        qed
      qed
    qed
  qed
qed

lemma parseArgs_no_runs:
  "''--runs'' \<notin> set args \<Longrightarrow> parseArgs e args n c = Inr (n', c') \<Longrightarrow> n' = n"
  by (induction e args n c rule: parseArgs.induct) (auto split: if_splits option.splits)

lemma parseArgs_no_network:
  "''--network'' \<notin> set args \<Longrightarrow> parseArgs e args n c = Inr (n', c') \<Longrightarrow> c' = c"
  by (induction e args n c rule: parseArgs.induct) (auto split: if_splits option.splits)

lemma parseArgs_no_flags:
  "''--runs'' \<notin> set args \<Longrightarrow> ''--network'' \<notin> set args \<Longrightarrow> parseArgs e args n c = Inr (n, c)"
  by (induction e args n c rule: parseArgs.induct) auto

lemma measure_command_default:
  "measure_command e 10 ''4g'' fw =
     ''tsx scripts/measure-single.ts '' @ dquote @ name fw @ dquote @ '' --runs 10 --network 4g''"
  by (simp add: measure_command_def num_toString_def dec_nat.simps digit_char_def)

lemma parseArgs_error_shape: "parseArgs e args n c = Inl t \<Longrightarrow> arg_error t"
  by (induction e args n c rule: parseArgs.induct)
     (auto simp: arg_error_def split: if_splits option.splits)

lemma arg_error_quiet: "arg_error t \<Longrightarrow> execs t = [] \<and> writes t = []"
  by (auto simp: arg_error_def)

text \<open>
  C9. For every argument list, given that \<open>parseInt\<close> yields \<open>NaN\<close> on the two flag names
  themselves (as JavaScript's does): if \<open>--runs\<close> is followed by a value that \<open>parseInt\<close>
  maps to \<open>NaN\<close> or to a number below 1, or \<open>--network\<close> is followed by a value other than
  4g, 3g and slow-3g, the run ends with exit status 1 and has done nothing but print the
  error message (no build is validated, no subprocess is started); and when neither flag
  occurs the run is the one with 10 runs per page and the network condition 4g, whose
  subprocess commands end in \<open>--runs 10 --network 4g\<close>. More generally, an accepted
  command line without \<open>--runs\<close> gives 10 runs and one without \<open>--network\<close> gives 4g.
\<close>

theorem command_line_checked:
  assumes "parseInt e ''--runs'' = None" and "parseInt e ''--network'' = None"
  shows "(argv e = pre @ ''--runs'' # v # post
            \<and> (case parseInt e v of None \<Rightarrow> True | Some k \<Rightarrow> k < 1)
          \<longrightarrow> snd (main e) = Exited 1 \<and> arg_error (fst (main e)))
       \<and> (argv e = pre @ ''--network'' # v # post \<and> v \<notin> set [''4g'', ''3g'', ''slow-3g'']
          \<longrightarrow> snd (main e) = Exited 1 \<and> arg_error (fst (main e)))
       \<and> (''--runs'' \<notin> set (argv e) \<and> ''--network'' \<notin> set (argv e)
          \<longrightarrow> main e = run_with e 10 ''4g''
              \<and> (\<forall>fw. measure_command e 10 ''4g'' fw =
                    ''tsx scripts/measure-single.ts '' @ dquote @ name fw @ dquote
                    @ '' --runs 10 --network 4g''))
       \<and> (''--runs'' \<notin> set (argv e) \<and> parseArgs e (argv e) 10 ''4g'' = Inr (n, c)
          \<longrightarrow> n = 10 \<and> main e = run_with e 10 c)
       \<and> (''--network'' \<notin> set (argv e) \<and> parseArgs e (argv e) 10 ''4g'' = Inr (n, c)
          \<longrightarrow> c = ''4g'' \<and> main e = run_with e n ''4g'')"
proof (intro conjI impI)
  assume h: "argv e = pre @ ''--runs'' # v # post
             \<and> (case parseInt e v of None \<Rightarrow> True | Some k \<Rightarrow> k < 1)"
  then obtain t where "parseArgs e (argv e) 10 ''4g'' = Inl t" "arg_error t"
    using parseArgs_rejects [OF assms, of "argv e" pre "''--runs''" v post 10 "''4g''"] by auto
  then show "snd (main e) = Exited 1" "arg_error (fst (main e))"
    by (simp_all add: main_def)
next
  assume h: "argv e = pre @ ''--network'' # v # post \<and> v \<notin> set [''4g'', ''3g'', ''slow-3g'']"
  then obtain t where "parseArgs e (argv e) 10 ''4g'' = Inl t" "arg_error t"
    using parseArgs_rejects [OF assms, of "argv e" pre "''--network''" v post 10 "''4g''"] by auto
  then show "snd (main e) = Exited 1" "arg_error (fst (main e))"
    by (simp_all add: main_def)
next
  assume h: "''--runs'' \<notin> set (argv e) \<and> ''--network'' \<notin> set (argv e)"
  then show "main e = run_with e 10 ''4g''"
    by (simp add: main_def parseArgs_no_flags)
  show "\<forall>fw. measure_command e 10 ''4g'' fw =
          ''tsx scripts/measure-single.ts '' @ dquote @ name fw @ dquote
          @ '' --runs 10 --network 4g''"
    by (simp add: measure_command_default)
next
  assume h: "''--runs'' \<notin> set (argv e) \<and> parseArgs e (argv e) 10 ''4g'' = Inr (n, c)"
  then show n: "n = 10"
    using parseArgs_no_runs [of "argv e" e 10 "''4g''" n c] by simp
  from h show "main e = run_with e 10 c"
    unfolding n by (simp add: main_def)
next
  assume h: "''--network'' \<notin> set (argv e) \<and> parseArgs e (argv e) 10 ''4g'' = Inr (n, c)"
  then show c: "c = ''4g''"
    using parseArgs_no_network [of "argv e" e 10 "''4g''" n c] by simp
  from h show "main e = run_with e n ''4g''"
    unfolding c by (simp add: main_def)
qed

lemma sample_parse: "parseArgs (sample_env []) (argv (sample_env [])) 10 ''4g'' = Inr (10, ''4g'')"
  by (simp add: sample_env_def sample_run_def)

lemma sample_built: "\<forall>fw \<in> set FRAMEWORKS. checkBuildExists (sample_env []) fw"
  by code_simp

lemma sample_built_all: "list_all (checkBuildExists (sample_env [])) FRAMEWORKS"
  using sample_built by (simp add: list_all_iff)

theorem command_line_checked_witness:
  "parseInt (sample_env [''--network'', ''3g'', ''--runs'', ''0'']) ''--runs'' = None
   \<and> parseInt (sample_env [''--network'', ''3g'', ''--runs'', ''0'']) ''--network'' = None
   \<and> argv (sample_env [''--network'', ''3g'', ''--runs'', ''0''])
       = [''--network'', ''3g''] @ ''--runs'' # ''0'' # []
   \<and> (case parseInt (sample_env [''--network'', ''3g'', ''--runs'', ''0'']) ''0'' of
         None \<Rightarrow> True | Some k \<Rightarrow> k < 1)
   \<and> snd (main (sample_env [''--network'', ''3g'', ''--runs'', ''0''])) = Exited 1
   \<and> arg_error (fst (main (sample_env [''--network'', ''3g'', ''--runs'', ''0''])))
   \<and> ''--runs'' \<notin> set (argv (sample_env [])) \<and> ''--network'' \<notin> set (argv (sample_env []))
   \<and> main (sample_env []) = run_with (sample_env []) 10 ''4g''"
proof -
  let ?E = "sample_env [''--network'', ''3g'', ''--runs'', ''0'']"
  have h1: "parseInt ?E ''--runs'' = None" by code_simp
  have h2: "parseInt ?E ''--network'' = None" by code_simp
  have h3: "argv ?E = [''--network'', ''3g''] @ ''--runs'' # ''0'' # []"
    by (simp add: sample_env_def sample_run_def)
  have h4: "case parseInt ?E ''0'' of None \<Rightarrow> True | Some k \<Rightarrow> k < 1" by code_simp
  have g1: "parseInt (sample_env []) ''--runs'' = None" by code_simp
  have g2: "parseInt (sample_env []) ''--network'' = None" by code_simp
  have g3: "''--runs'' \<notin> set (argv (sample_env [])) \<and> ''--network'' \<notin> set (argv (sample_env []))"
    by (simp add: sample_env_def sample_run_def)
  from command_line_checked [OF h1 h2, of "[''--network'', ''3g'']" "''0''" "[]"] h3 h4
  have a: "snd (main ?E) = Exited 1 \<and> arg_error (fst (main ?E))" by blast
  from command_line_checked [OF g1 g2] g3
  have b: "main (sample_env []) = run_with (sample_env []) 10 ''4g''" by blast
  from h1 h2 h3 h4 a g3 b show ?thesis by blast
qed

subsection \<open>A whole run\<close>



lemma unbuilt_parse:
  "parseArgs sample_env_unbuilt (argv sample_env_unbuilt) 10 ''4g'' = Inr (10, ''4g'')"
  by (simp add: sample_env_unbuilt_def sample_env_def sample_run_def)

text \<open>
  C2. If some framework of \<open>FRAMEWORKS\<close> has none of its \<open>buildCheck\<close> directories under
  its directory, the run ends with exit status 1, has started no subprocess and has written
  no file. If the command line is accepted and every framework has at least one of its
  build directories, \<open>checkBuildExists\<close> holds for every framework, each is reported as
  found, no build is recorded as missing, and the process is not ended by \<open>process.exit\<close>.
\<close>

theorem missing_build_aborts:
  "((\<exists>fw \<in> set FRAMEWORKS. \<forall>d \<in> set (buildCheck fw).
        \<not> existsSync e (join_path (join_path (cwd e) (dir fw)) d))
     \<longrightarrow> snd (main e) = Exited 1 \<and> execs (fst (main e)) = [] \<and> writes (fst (main e)) = [])
   \<and> (parseArgs e (argv e) 10 ''4g'' = Inr (n, c)
       \<and> (\<forall>fw \<in> set FRAMEWORKS. \<exists>d \<in> set (buildCheck fw).
             existsSync e (join_path (join_path (cwd e) (dir fw)) d))
     \<longrightarrow> (\<forall>fw \<in> set FRAMEWORKS.
            checkBuildExists e fw \<and> Log (L_build_found (name fw)) \<in> set (fst (main e)))
         \<and> missingBuilds (validateBuilds e FRAMEWORKS \<lparr>missingBuilds = [], v_trace = t\<rparr>) = []
         \<and> Log L_all_validated \<in> set (fst (main e))
         \<and> snd (main e) = Completed)"
proof (intro conjI impI)
  assume "\<exists>fw \<in> set FRAMEWORKS. \<forall>d \<in> set (buildCheck fw).
             \<not> existsSync e (join_path (join_path (cwd e) (dir fw)) d)"
  then obtain fw where fw: "fw \<in> set FRAMEWORKS" "\<not> checkBuildExists e fw"
    by (auto simp: checkBuildExists_iff)
  have "snd (main e) = Exited 1 \<and> execs (fst (main e)) = [] \<and> writes (fst (main e)) = []"
  proof (cases "parseArgs e (argv e) 10 ''4g''")
    case (Inl errors)
    then show ?thesis
      using arg_error_quiet [OF parseArgs_error_shape [OF Inl]] by (simp add: main_def)
  next
    case (Inr p)
    obtain n' c' where p: "p = (n', c')" by (cases p)
    from run_with_missing [OF fw, of n' c'] show ?thesis
      using Inr p by (simp add: main_def)
  qed
  then show "snd (main e) = Exited 1" "execs (fst (main e)) = []" "writes (fst (main e)) = []"
    by simp_all
next
  assume h: "parseArgs e (argv e) 10 ''4g'' = Inr (n, c)
       \<and> (\<forall>fw \<in> set FRAMEWORKS. \<exists>d \<in> set (buildCheck fw).
             existsSync e (join_path (join_path (cwd e) (dir fw)) d))"
  then have all: "\<forall>fw \<in> set FRAMEWORKS. checkBuildExists e fw"
    by (simp add: checkBuildExists_iff)
  from h have parsed: "parseArgs e (argv e) 10 ''4g'' = Inr (n, c)" by simp
  note m = main_built [OF parsed all]
  show "\<forall>fw \<in> set FRAMEWORKS.
          checkBuildExists e fw \<and> Log (L_build_found (name fw)) \<in> set (fst (main e))"
    using all by (auto simp: m preamble_def)
  have "filter (\<lambda>fw. \<not> checkBuildExists e fw) FRAMEWORKS = []"
    using all by (simp add: filter_empty_conv)
  then show "missingBuilds (validateBuilds e FRAMEWORKS \<lparr>missingBuilds = [], v_trace = t\<rparr>) = []"
    by (simp add: validateBuilds_missing)
  show "Log L_all_validated \<in> set (fst (main e))"
    by (simp add: m preamble_def)
  show "snd (main e) = Completed"
    by (simp add: m)
qed

theorem missing_build_aborts_witness:
  "parseArgs sample_env_unbuilt (argv sample_env_unbuilt) 10 ''4g'' = Inr (10, ''4g'')
   \<and> (\<exists>fw \<in> set FRAMEWORKS. \<forall>d \<in> set (buildCheck fw).
         \<not> existsSync sample_env_unbuilt (join_path (join_path (cwd sample_env_unbuilt) (dir fw)) d))
   \<and> snd (main sample_env_unbuilt) = Exited 1
   \<and> execs (fst (main sample_env_unbuilt)) = []
   \<and> writes (fst (main sample_env_unbuilt)) = []
   \<and> parseArgs (sample_env []) (argv (sample_env [])) 10 ''4g'' = Inr (10, ''4g'')
   \<and> list_all (\<lambda>fw. list_ex (\<lambda>d. existsSync (sample_env [])
                       (join_path (join_path (cwd (sample_env [])) (dir fw)) d)) (buildCheck fw))
         FRAMEWORKS
   \<and> Log L_all_validated \<in> set (fst (main (sample_env [])))
   \<and> snd (main (sample_env [])) = Completed"
proof -
  have h: "\<exists>fw \<in> set FRAMEWORKS. \<forall>d \<in> set (buildCheck fw).
         \<not> existsSync sample_env_unbuilt (join_path (join_path (cwd sample_env_unbuilt) (dir fw)) d)"
    by code_simp
  have g: "\<forall>fw \<in> set FRAMEWORKS. \<exists>d \<in> set (buildCheck fw).
         existsSync (sample_env []) (join_path (join_path (cwd (sample_env [])) (dir fw)) d)"
    by code_simp
  from missing_build_aborts [of sample_env_unbuilt 10 "''4g''" "[]"] h
  have a: "snd (main sample_env_unbuilt) = Exited 1 \<and> execs (fst (main sample_env_unbuilt)) = []
     \<and> writes (fst (main sample_env_unbuilt)) = []" by blast
  from missing_build_aborts [of "sample_env []" 10 "''4g''" "[]"] sample_parse g
  have b: "Log L_all_validated \<in> set (fst (main (sample_env []))) \<and> snd (main (sample_env [])) = Completed"
    by blast
  have g': "list_all (\<lambda>fw. list_ex (\<lambda>d. existsSync (sample_env [])
                       (join_path (join_path (cwd (sample_env [])) (dir fw)) d)) (buildCheck fw))
         FRAMEWORKS"
    using g by (simp add: list_all_iff list_ex_iff)
  from unbuilt_parse h a sample_parse g' b show ?thesis by blast
qed

subsection \<open>The table for records of the declared type\<close>

lemma num_toString_3: "num_toString e 3 = ''3''"
  by (simp add: num_toString_def dec_nat.simps digit_char_def)

text \<open>
  C8. For every result list whose elements conform to \<open>AggregatedStats\<close> and every page,
  \<open>generateMarkdownTable\<close> returns the table whose data rows are, in this order, the rows
  of the records of the requested page sorted (stably) by the median of \<open>jsUncompressed\<close>:
  one row per record of that page, none for a record of the other page, in ascending order
  of that median. The text of the table is written out in \<open>table_text\<close> and \<open>row_text\<close>.
\<close>

theorem generateMarkdownTable_rows:
  assumes "list_all2 (\<lambda>v a. decode v = Some a) results records"
  shows "generateMarkdownTable e results p = Some (table_text e p (page_rows p records))
     \<and> mset (page_rows p records) = filter_mset (\<lambda>a. page a = p) (mset records)
     \<and> sorted (map (\<lambda>a. median (jsUncompressed a)) (page_rows p records))"
  using generateMarkdownTable_conforming [OF assms, of e p] by simp

theorem generateMarkdownTable_rows_witness:
  "list_all2 (\<lambda>v a. decode v = Some a)
     [encode (sample_stats ''A'' Home 2048), encode (sample_stats ''B'' Home 1024),
      encode (sample_stats ''C'' Board 10)]
     [sample_stats ''A'' Home 2048, sample_stats ''B'' Home 1024, sample_stats ''C'' Board 10]
   \<and> generateMarkdownTable (sample_env [])
       [encode (sample_stats ''A'' Home 2048), encode (sample_stats ''B'' Home 1024),
        encode (sample_stats ''C'' Board 10)] Home =
     Some (''## Home Page Performance\<newline>\<newline>''
       @ ''Sorted by raw bundle size (smallest first):\<newline>\<newline>''
       @ ''| Framework | Raw (kB) | Compressed (kB) | Ratio | Perf Score | FCP (ms) | LCP (ms) |\<newline>''
       @ ''|-----------|----------|----------------|-------|------------|----------|----------|\<newline>''
       @ ''| B | 1.0 '' @ [CHR 0xC2, CHR 0xB1] @ ''0.0 | 0.3 '' @ [CHR 0xC2, CHR 0xB1] @ ''0.0 | 75% | 98 ''
         @ [CHR 0xC2, CHR 0xB1] @ ''2.0 | 812 '' @ [CHR 0xC2, CHR 0xB1] @ ''2 | 1040 ''
         @ [CHR 0xC2, CHR 0xB1] @ ''2 |\<newline>''
       @ ''| A | 2.0 '' @ [CHR 0xC2, CHR 0xB1] @ ''0.0 | 0.5 '' @ [CHR 0xC2, CHR 0xB1] @ ''0.0 | 75% | 98 ''
         @ [CHR 0xC2, CHR 0xB1] @ ''2.0 | 812 '' @ [CHR 0xC2, CHR 0xB1] @ ''2 | 1040 ''
         @ [CHR 0xC2, CHR 0xB1] @ ''2 |\<newline>''
       @ ''\<newline>''
       @ ''**Explanation:**\<newline>''
       @ ''- **Raw**: Uncompressed bundle size (actual code volume, more consistent for comparison)\<newline>''
       @ ''- **Compressed**: Bytes transferred over network (what users download)\<newline>''
       @ ''- **Ratio**: Percentage saved by compression (higher is better compression)\<newline>''
       @ ''- Values show median '' @ [CHR 0xC2, CHR 0xB1] @ ''std dev from 10 measurement runs\<newline>''
       @ ''- Compression type: br\<newline>\<newline>'')"
proof -
  let ?vs = "[encode (sample_stats ''A'' Home 2048), encode (sample_stats ''B'' Home 1024),
      encode (sample_stats ''C'' Board 10)]"
  let ?rs = "[sample_stats ''A'' Home 2048, sample_stats ''B'' Home 1024, sample_stats ''C'' Board 10]"
  have h: "list_all2 (\<lambda>v a. decode v = Some a) ?vs ?rs"
    by code_simp
  have t: "table_text (sample_env []) Home (page_rows Home ?rs) =
       ''## Home Page Performance\<newline>\<newline>''
       @ ''Sorted by raw bundle size (smallest first):\<newline>\<newline>''
       @ ''| Framework | Raw (kB) | Compressed (kB) | Ratio | Perf Score | FCP (ms) | LCP (ms) |\<newline>''
       @ ''|-----------|----------|----------------|-------|------------|----------|----------|\<newline>''
       @ ''| B | 1.0 '' @ [CHR 0xC2, CHR 0xB1] @ ''0.0 | 0.3 '' @ [CHR 0xC2, CHR 0xB1] @ ''0.0 | 75% | 98 ''
         @ [CHR 0xC2, CHR 0xB1] @ ''2.0 | 812 '' @ [CHR 0xC2, CHR 0xB1] @ ''2 | 1040 ''
         @ [CHR 0xC2, CHR 0xB1] @ ''2 |\<newline>''
       @ ''| A | 2.0 '' @ [CHR 0xC2, CHR 0xB1] @ ''0.0 | 0.5 '' @ [CHR 0xC2, CHR 0xB1] @ ''0.0 | 75% | 98 ''
         @ [CHR 0xC2, CHR 0xB1] @ ''2.0 | 812 '' @ [CHR 0xC2, CHR 0xB1] @ ''2 | 1040 ''
         @ [CHR 0xC2, CHR 0xB1] @ ''2 |\<newline>''
       @ ''\<newline>''
       @ ''**Explanation:**\<newline>''
       @ ''- **Raw**: Uncompressed bundle size (actual code volume, more consistent for comparison)\<newline>''
       @ ''- **Compressed**: Bytes transferred over network (what users download)\<newline>''
       @ ''- **Ratio**: Percentage saved by compression (higher is better compression)\<newline>''
       @ ''- Values show median '' @ [CHR 0xC2, CHR 0xB1] @ ''std dev from 10 measurement runs\<newline>''
       @ ''- Compression type: br\<newline>\<newline>''"
    by code_simp
  from generateMarkdownTable_rows [OF h, of "sample_env []" Home]
  have "generateMarkdownTable (sample_env []) ?vs Home =
          Some (table_text (sample_env []) Home (page_rows Home ?rs))"
    by blast
  then show ?thesis
    using h unfolding t by blast
qed

text \<open>
  C10. When no element of the result list is \<open>null\<close> (so that its page can be read) and
  none has the requested page (in particular for the empty list),
  \<open>generateMarkdownTable\<close> does not throw: it returns the title, the column header and
  the separator line followed directly by the explanation, with no data row, and the footer
  reports 3 measurement runs and the compression type gzip.
\<close>

theorem generateMarkdownTable_empty:
  assumes "JNull \<notin> set results" and "JUndefined \<notin> set results"
    and "\<forall>r \<in> set results.
           getprop r ''page'' \<noteq> Some (JStr (if p = Home then ''home'' else ''board''))"
  shows "generateMarkdownTable e results p =
     Some (''## '' @ (if p = Home then ''Home Page'' else ''Board Page'') @ '' Performance\<newline>\<newline>''
       @ ''Sorted by raw bundle size (smallest first):\<newline>\<newline>''
       @ ''| Framework | Raw (kB) | Compressed (kB) | Ratio | Perf Score | FCP (ms) | LCP (ms) |\<newline>''
       @ ''|-----------|----------|----------------|-------|------------|----------|----------|\<newline>''
       @ ''\<newline>''
       @ ''**Explanation:**\<newline>''
       @ ''- **Raw**: Uncompressed bundle size (actual code volume, more consistent for comparison)\<newline>''
       @ ''- **Compressed**: Bytes transferred over network (what users download)\<newline>''
       @ ''- **Ratio**: Percentage saved by compression (higher is better compression)\<newline>''
       @ ''- Values show median '' @ [CHR 0xC2, CHR 0xB1] @ ''std dev from 3 measurement runs\<newline>''
       @ ''- Compression type: gzip\<newline>\<newline>'')"
proof -
  have ps: "page_str p = (if p = Home then ''home'' else ''board'')"
    by (cases p) (simp_all add: page_str_def)
  have "filter (\<lambda>r. getprop r ''page'' = Some (JStr (page_str p))) results = []"
    using assms(3) by (simp add: filter_empty_conv ps)
  then have "filter_page (page_str p) results = Some []"
    using filter_page_total [OF assms(1,2), of "page_str p"] by simp
  then have s: "sortedByBundle e results p = Some []"
    by (simp add: sortedByBundle_def sort_by_bundle_def)
  show ?thesis
    unfolding generateMarkdownTable_def
    by (simp add: s footer_runs_def footer_compression_def first_elem_def opt_getprop_def
        getprop_def or_else_def table_head_def table_foot_def plus_minus_def num_toString_3)
qed

theorem generateMarkdownTable_empty_witness:
  "JNull \<notin> set [encode (sample_stats ''Marko'' Home 40960)]
   \<and> JUndefined \<notin> set [encode (sample_stats ''Marko'' Home 40960)]
   \<and> list_all (\<lambda>r. getprop r ''page'' \<noteq> Some (JStr ''board''))
        [encode (sample_stats ''Marko'' Home 40960)]
   \<and> generateMarkdownTable (sample_env []) [encode (sample_stats ''Marko'' Home 40960)] Board =
     Some (''## Board Page Performance\<newline>\<newline>''
       @ ''Sorted by raw bundle size (smallest first):\<newline>\<newline>''
       @ ''| Framework | Raw (kB) | Compressed (kB) | Ratio | Perf Score | FCP (ms) | LCP (ms) |\<newline>''
       @ ''|-----------|----------|----------------|-------|------------|----------|----------|\<newline>''
       @ ''\<newline>''
       @ ''**Explanation:**\<newline>''
       @ ''- **Raw**: Uncompressed bundle size (actual code volume, more consistent for comparison)\<newline>''
       @ ''- **Compressed**: Bytes transferred over network (what users download)\<newline>''
       @ ''- **Ratio**: Percentage saved by compression (higher is better compression)\<newline>''
       @ ''- Values show median '' @ [CHR 0xC2, CHR 0xB1] @ ''std dev from 3 measurement runs\<newline>''
       @ ''- Compression type: gzip\<newline>\<newline>'')
   \<and> generateMarkdownTable (sample_env []) [] Home =
     Some (''## Home Page Performance\<newline>\<newline>''
       @ ''Sorted by raw bundle size (smallest first):\<newline>\<newline>''
       @ ''| Framework | Raw (kB) | Compressed (kB) | Ratio | Perf Score | FCP (ms) | LCP (ms) |\<newline>''
       @ ''|-----------|----------|----------------|-------|------------|----------|----------|\<newline>''
       @ ''\<newline>''
       @ ''**Explanation:**\<newline>''
       @ ''- **Raw**: Uncompressed bundle size (actual code volume, more consistent for comparison)\<newline>''
       @ ''- **Compressed**: Bytes transferred over network (what users download)\<newline>''
       @ ''- **Ratio**: Percentage saved by compression (higher is better compression)\<newline>''
       @ ''- Values show median '' @ [CHR 0xC2, CHR 0xB1] @ ''std dev from 3 measurement runs\<newline>''
       @ ''- Compression type: gzip\<newline>\<newline>'')"
proof -
  let ?vs = "[encode (sample_stats ''Marko'' Home 40960)]"
  have h1: "JNull \<notin> set ?vs" by (simp add: encode_def)
  have h2: "JUndefined \<notin> set ?vs" by (simp add: encode_def)
  have h3: "list_all (\<lambda>r. getprop r ''page'' \<noteq> Some (JStr ''board'')) ?vs"
    by code_simp
  then have h3': "\<forall>r \<in> set ?vs.
      getprop r ''page'' \<noteq> Some (JStr (if Board = Home then ''home'' else ''board''))"
    by (simp add: list_all_iff)
  from generateMarkdownTable_empty [OF h1 h2 h3', of "sample_env []"]
  have a: "generateMarkdownTable (sample_env []) ?vs Board =
     Some (''## Board Page Performance\<newline>\<newline>''
       @ ''Sorted by raw bundle size (smallest first):\<newline>\<newline>''
       @ ''| Framework | Raw (kB) | Compressed (kB) | Ratio | Perf Score | FCP (ms) | LCP (ms) |\<newline>''
       @ ''|-----------|----------|----------------|-------|------------|----------|----------|\<newline>''
       @ ''\<newline>''
       @ ''**Explanation:**\<newline>''
       @ ''- **Raw**: Uncompressed bundle size (actual code volume, more consistent for comparison)\<newline>''
       @ ''- **Compressed**: Bytes transferred over network (what users download)\<newline>''
       @ ''- **Ratio**: Percentage saved by compression (higher is better compression)\<newline>''
       @ ''- Values show median '' @ [CHR 0xC2, CHR 0xB1] @ ''std dev from 3 measurement runs\<newline>''
       @ ''- Compression type: gzip\<newline>\<newline>'')"
    by simp
  from generateMarkdownTable_empty [of "[]" Home "sample_env []"]
  have b: "generateMarkdownTable (sample_env []) [] Home =
     Some (''## Home Page Performance\<newline>\<newline>''
       @ ''Sorted by raw bundle size (smallest first):\<newline>\<newline>''
       @ ''| Framework | Raw (kB) | Compressed (kB) | Ratio | Perf Score | FCP (ms) | LCP (ms) |\<newline>''
       @ ''|-----------|----------|----------------|-------|------------|----------|----------|\<newline>''
       @ ''\<newline>''
       @ ''**Explanation:**\<newline>''
       @ ''- **Raw**: Uncompressed bundle size (actual code volume, more consistent for comparison)\<newline>''
       @ ''- **Compressed**: Bytes transferred over network (what users download)\<newline>''
       @ ''- **Ratio**: Percentage saved by compression (higher is better compression)\<newline>''
       @ ''- Values show median '' @ [CHR 0xC2, CHR 0xB1] @ ''std dev from 3 measurement runs\<newline>''
       @ ''- Compression type: gzip\<newline>\<newline>'')"
    by simp
  from h1 h2 h3 a b show ?thesis by blast
qed

subsection \<open>The reports of a run\<close>

lemma first_or_cases:
  "first_or rs k d = (case rs of [] \<Rightarrow> d | r # _ \<Rightarrow> or_else (opt_getprop r k) d)"
  by (cases rs) (simp_all add: first_or_def first_elem_def opt_getprop_def getprop_def or_else_def)

lemma report_markdown_tail:
  "report_markdown e n rs failed = Some markdown \<Longrightarrow> \<exists>body. markdown = body @ failed_section failed"
  unfolding report_markdown_def by (auto simp: bind_eq_Some_conv Let_def)

lemma failed_event_in_trace:
  "fw \<in> set fws \<Longrightarrow> try_measure e n c fw = None \<Longrightarrow>
   Log (L_failed_to_measure (name fw)) \<in> set (concat (map (measure_events e n c) fws))"
  by (induction fws) (auto simp: measure_events_def)

lemma failed_name_in_list:
  "fw \<in> set fws \<Longrightarrow> try_measure e n c fw = None \<Longrightarrow> name fw \<in> set (failed_names e n c fws)"
  by (auto simp: failed_names_def)

lemma failed_names_nonempty:
  "fw \<in> set fws \<Longrightarrow> try_measure e n c fw = None \<Longrightarrow> failed_names e n c fws \<noteq> []"
  by (auto simp: failed_names_def filter_empty_conv)

lemma report_paths:
  "resultsPath e = join_path (join_path (cwd e) ''metrics'') ''final-measurements.json''"
  "markdownPath e = join_path (join_path (cwd e) ''metrics'') ''final-measurements.md''"
  "legacyPath e = join_path (join_path (cwd e) ''metrics'') ''bundle-summary.json''"
  by (simp_all add: resultsPath_def markdownPath_def legacyPath_def metricsDir_def)

text \<open>
  C1 (as amended). In a run that reaches the measurement loop (the command line is
  accepted, every build is found), for every framework of \<open>FRAMEWORKS\<close> whose measurement
  attempt fails: its name is in the failure list the loop returns, the failure message for
  it is printed, a subprocess is still started for every framework of the list, and the
  process is not ended by \<open>process.exit\<close>. The markdown report, whenever it is written, ends
  with the Failed Measurements section naming the frameworks of the failure list, separated
  by commas; and it is written at least when every collected value conforms to
  \<open>AggregatedStats\<close>.
\<close>

theorem failed_framework_recorded:
  assumes "parseArgs e (argv e) 10 ''4g'' = Inr (n, c)"
    and "\<forall>fw \<in> set FRAMEWORKS. checkBuildExists e fw"
    and "fw \<in> set FRAMEWORKS"
    and "try_measure e n c fw = None"
  shows "name fw \<in> set (failedFrameworks (measureAll e n c FRAMEWORKS s))
     \<and> Log (L_failed_to_measure (name fw)) \<in> set (fst (main e))
     \<and> execs (fst (main e)) = map (measure_command e n c) FRAMEWORKS
     \<and> snd (main e) = Completed
     \<and> (\<forall>written.
           (join_path (join_path (cwd e) ''metrics'') ''final-measurements.md'', Markdown written)
             \<in> set (writes (fst (main e)))
           \<longrightarrow> (\<exists>body. written =
                  body @ ''## Failed Measurements\<newline>\<newline>The following frameworks failed to measure: ''
                  @ comma_list (failedFrameworks (measureAll e n c FRAMEWORKS
                       \<lparr>allResults = [], failedFrameworks = [], m_trace = []\<rparr>))
                  @ ''\<newline>\<newline>''))
     \<and> (list_all2 (\<lambda>v a. decode v = Some a)
           (allResults (measureAll e n c FRAMEWORKS
              \<lparr>allResults = [], failedFrameworks = [], m_trace = []\<rparr>)) records
         \<longrightarrow> (\<exists>written.
               (join_path (join_path (cwd e) ''metrics'') ''final-measurements.md'', Markdown written)
                 \<in> set (writes (fst (main e)))))"
proof -
  note m = main_built [OF assms(1,2)]
  note w = writes_main_built [OF assms(1,2)]
  let ?rs = "measured_results e n c FRAMEWORKS"
  let ?failed = "failed_names e n c FRAMEWORKS"
  have ne: "?failed \<noteq> []"
    by (rule failed_names_nonempty [OF assms(3,4)])
  have a: "name fw \<in> set (failedFrameworks (measureAll e n c FRAMEWORKS s))"
    using failed_name_in_list [OF assms(3,4)] by (simp add: measureAll_failed)
  have b: "Log (L_failed_to_measure (name fw)) \<in> set (fst (main e))"
    using failed_event_in_trace [OF assms(3,4)] by (simp add: m)
  have c: "execs (fst (main e)) = map (measure_command e n c) FRAMEWORKS"
    by (simp add: m execs_append execs_preamble execs_measure_events execs_generateReports)
  have d: "snd (main e) = Completed"
    by (simp add: m)
  have f: "\<exists>body. written =
             body @ ''## Failed Measurements\<newline>\<newline>The following frameworks failed to measure: ''
             @ comma_list (failedFrameworks (measureAll e n c FRAMEWORKS
                  \<lparr>allResults = [], failedFrameworks = [], m_trace = []\<rparr>))
             @ ''\<newline>\<newline>''"
    if "(join_path (join_path (cwd e) ''metrics'') ''final-measurements.md'', Markdown written)
          \<in> set (writes (fst (main e)))" for written
  proof -
    from that have "report_markdown e n ?rs ?failed = Some written"
      unfolding w writes_generateReports by (auto split: option.splits)
    then obtain body where "written = body @ failed_section ?failed"
      using report_markdown_tail by blast
    then show ?thesis
      using ne by (auto simp: failed_section_text measureAll_failed)
  qed
  have g: "\<exists>written.
             (join_path (join_path (cwd e) ''metrics'') ''final-measurements.md'', Markdown written)
               \<in> set (writes (fst (main e)))"
    if "list_all2 (\<lambda>v a. decode v = Some a)
           (allResults (measureAll e n c FRAMEWORKS
              \<lparr>allResults = [], failedFrameworks = [], m_trace = []\<rparr>)) records"
  proof -
    from that have "list_all2 (\<lambda>v a. decode v = Some a) ?rs records"
      by (simp add: measureAll_allResults)
    from report_markdown_conforming [OF this, of e n ?failed]
    show ?thesis
      unfolding w writes_generateReports by (auto simp: report_paths)
  qed
  from a b c d f g show ?thesis by blast
qed

lemma sample_failed:
  "failedFrameworks (measureAll (sample_env []) 10 ''4g'' FRAMEWORKS
      \<lparr>allResults = [], failedFrameworks = [], m_trace = []\<rparr>) = [''Nuxt'']"
  by code_simp

lemma sample_collected:
  "allResults (measureAll (sample_env []) 10 ''4g'' FRAMEWORKS
      \<lparr>allResults = [], failedFrameworks = [], m_trace = []\<rparr>) =
     [encode (sample_stats ''Marko'' Home 40960), encode (sample_stats ''Marko'' Board 51200)]"
  by code_simp

lemma sample_conforming:
  "list_all2 (\<lambda>v a. decode v = Some a)
     [encode (sample_stats ''Marko'' Home 40960), encode (sample_stats ''Marko'' Board 51200)]
     [sample_stats ''Marko'' Home 40960, sample_stats ''Marko'' Board 51200]"
  by code_simp

lemma sample_cwd: "cwd (sample_env []) = ''/repo''"
  by (simp add: sample_env_def sample_run_def)

lemma sample_paths:
  "join_path (join_path ''/repo'' ''metrics'') ''final-measurements.json''
     = ''/repo/metrics/final-measurements.json''"
  "join_path (join_path ''/repo'' ''metrics'') ''final-measurements.md''
     = ''/repo/metrics/final-measurements.md''"
  "join_path (join_path ''/repo'' ''metrics'') ''bundle-summary.json''
     = ''/repo/metrics/bundle-summary.json''"
  by code_simp+

theorem failed_framework_recorded_witness:
  "parseArgs (sample_env []) (argv (sample_env [])) 10 ''4g'' = Inr (10, ''4g'')
   \<and> list_all (checkBuildExists (sample_env [])) FRAMEWORKS
   \<and> nuxt \<in> set FRAMEWORKS
   \<and> try_measure (sample_env []) 10 ''4g'' nuxt = None
   \<and> ''Nuxt'' \<in> set (failedFrameworks (measureAll (sample_env []) 10 ''4g'' FRAMEWORKS
        \<lparr>allResults = [], failedFrameworks = [], m_trace = []\<rparr>))
   \<and> Log (L_failed_to_measure ''Nuxt'') \<in> set (fst (main (sample_env [])))
   \<and> snd (main (sample_env [])) = Completed
   \<and> (\<exists>body. (''/repo/metrics/final-measurements.md'',
                Markdown (body @ ''## Failed Measurements\<newline>\<newline>''
                  @ ''The following frameworks failed to measure: Nuxt\<newline>\<newline>''))
              \<in> set (writes (fst (main (sample_env [])))))"
proof -
  have h3: "nuxt \<in> set FRAMEWORKS" by code_simp
  have h4: "try_measure (sample_env []) 10 ''4g'' nuxt = None" by code_simp
  have nm: "name nuxt = ''Nuxt''" by (simp add: nuxt_def)
  note t = failed_framework_recorded [OF sample_parse sample_built h3 h4,
      of "\<lparr>allResults = [], failedFrameworks = [], m_trace = []\<rparr>"
         "[sample_stats ''Marko'' Home 40960, sample_stats ''Marko'' Board 51200]",
      unfolded nm sample_failed sample_collected sample_cwd sample_paths]
  from t sample_conforming obtain written where
    wr: "(''/repo/metrics/final-measurements.md'', Markdown written)
           \<in> set (writes (fst (main (sample_env []))))"
    by blast
  with t obtain body where
    "written = body @ ''## Failed Measurements\<newline>\<newline>The following frameworks failed to measure: ''
       @ comma_list [''Nuxt''] @ ''\<newline>\<newline>''"
    by blast
  then have "written = body @ ''## Failed Measurements\<newline>\<newline>''
                  @ ''The following frameworks failed to measure: Nuxt\<newline>\<newline>''"
    by simp
  with wr have
    "\<exists>body. (''/repo/metrics/final-measurements.md'',
                Markdown (body @ ''## Failed Measurements\<newline>\<newline>''
                  @ ''The following frameworks failed to measure: Nuxt\<newline>\<newline>''))
              \<in> set (writes (fst (main (sample_env []))))"
    by blast
  moreover have "''Nuxt'' \<in> set (failedFrameworks (measureAll (sample_env []) 10 ''4g'' FRAMEWORKS
        \<lparr>allResults = [], failedFrameworks = [], m_trace = []\<rparr>))"
    by (simp add: sample_failed)
  ultimately show ?thesis
    using t sample_parse sample_built_all h3 h4 by blast
qed

text \<open>
  The claim as first stated fails: in this run the subprocess for Nuxt fails and is
  recorded, Marko prints a record whose \<open>performanceScore.stddev\<close> is \<open>null\<close>, the table
  throws on it, and no markdown report is written.
\<close>

theorem failed_framework_unreported:
  "try_measure sample_env_null_stddev 10 ''4g'' nuxt = None
   \<and> failedFrameworks (measureAll sample_env_null_stddev 10 ''4g'' FRAMEWORKS
        \<lparr>allResults = [], failedFrameworks = [], m_trace = []\<rparr>) = [''Nuxt'']
   \<and> map fst (writes (fst (main sample_env_null_stddev)))
        = [''/repo/metrics/final-measurements.json'']
   \<and> report_markdown sample_env_null_stddev 10 [null_stddev_record] [''Nuxt''] = None"
  by code_simp

lemma written_results_main_built:
  assumes "parseArgs e (argv e) 10 ''4g'' = Inr (n, c)"
    and "\<forall>fw \<in> set FRAMEWORKS. checkBuildExists e fw"
  shows "written_results (fst (main e)) = measured_results e n c FRAMEWORKS"
proof -
  have "written_results (generateReports e n c rs failed) = rs" for rs failed
    unfolding generateReports_def
    by (auto simp: written_results_append written_results_writes summary_events_quiet resultsData_def
        split: option.splits)
  then show ?thesis
    by (simp add: main_built [OF assms] written_results_append written_results_writes
        writes_preamble writes_measure_events)
qed

text \<open>
  C7 (as amended). In a run that reaches the measurement loop, after the last subprocess:
  \<open>final-measurements.json\<close> is written first and exactly once under \<open>metrics\<close> in the
  working directory, holding the metadata and the collected values; after it either
  nothing more is written (report generation threw) or \<open>final-measurements.md\<close> and
  \<open>bundle-summary.json\<close> are written, once each and in this order. When every collected
  value conforms to \<open>AggregatedStats\<close> all three are written, and their contents are the
  ones written out here from the collected records.
\<close>

theorem reports_written_once:
  assumes "parseArgs e (argv e) 10 ''4g'' = Inr (n, c)"
    and "\<forall>fw \<in> set FRAMEWORKS. checkBuildExists e fw"
  shows "(\<exists>rest. writes (fst (main e)) =
           (join_path (join_path (cwd e) ''metrics'') ''final-measurements.json'',
            Json_results
              \<lparr>rd_metadata =
                 \<lparr>md_timestamp = toISOString e 0,
                  md_runsPerPage = n,
                  md_measurementType = ''cold-load'',
                  md_networkCondition =
                    (case measured_results e n c FRAMEWORKS of [] \<Rightarrow> JStr c
                     | r # _ \<Rightarrow> or_else (opt_getprop r ''networkCondition'') (JStr c)),
                  md_chromeVersion =
                    (case measured_results e n c FRAMEWORKS of [] \<Rightarrow> JStr ''unknown''
                     | r # _ \<Rightarrow> or_else (opt_getprop r ''chromeVersion'') (JStr ''unknown'')),
                  md_compressionType =
                    (case measured_results e n c FRAMEWORKS of [] \<Rightarrow> JStr ''gzip''
                     | r # _ \<Rightarrow> or_else (opt_getprop r ''compressionType'') (JStr ''gzip''))\<rparr>,
               rd_results = measured_results e n c FRAMEWORKS\<rparr>) # rest
         \<and> (rest = []
            \<or> (\<exists>written legacy. rest =
                 [(join_path (join_path (cwd e) ''metrics'') ''final-measurements.md'', Markdown written),
                  (join_path (join_path (cwd e) ''metrics'') ''bundle-summary.json'', Json_legacy legacy)])))
     \<and> (list_all2 (\<lambda>v a. decode v = Some a) (measured_results e n c FRAMEWORKS) records
         \<longrightarrow> drop 1 (writes (fst (main e))) =
             [(join_path (join_path (cwd e) ''metrics'') ''final-measurements.md'',
               Markdown
                 (report_head_text e n records
                  @ table_text e Board (page_rows Board records)
                  @ table_text e Home (page_rows Home records)
                  @ (if failed_names e n c FRAMEWORKS = [] then []
                     else ''## Failed Measurements\<newline>\<newline>The following frameworks failed to measure: ''
                          @ comma_list (failed_names e n c FRAMEWORKS) @ ''\<newline>\<newline>''))),
              (join_path (join_path (cwd e) ''metrics'') ''bundle-summary.json'',
               Json_legacy
                 \<lparr>ls_timestamp = toISOString e 2,
                  ls_note = ''Bundle sizes use raw (uncompressed) as primary, compressed in parentheses'',
                  ls_boardPage = map legacy_text (page_rows Board records),
                  ls_homePage = map legacy_text (page_rows Home records)\<rparr>)])
     \<and> (\<exists>before after. fst (main e) = before @ after
           \<and> execs before = map (measure_command e n c) FRAMEWORKS \<and> writes before = []
           \<and> execs after = [] \<and> writes after = writes (fst (main e)))
     \<and> allResults (measureAll e n c FRAMEWORKS \<lparr>allResults = [], failedFrameworks = [], m_trace = t\<rparr>)
         = measured_results e n c FRAMEWORKS
     \<and> failedFrameworks (measureAll e n c FRAMEWORKS \<lparr>allResults = [], failedFrameworks = [], m_trace = t\<rparr>)
         = failed_names e n c FRAMEWORKS"
proof -
  note m = main_built [OF assms]
  note w = writes_main_built [OF assms]
  let ?rs = "measured_results e n c FRAMEWORKS"
  let ?failed = "failed_names e n c FRAMEWORKS"
  have a: "\<exists>rest. writes (fst (main e)) =
           (join_path (join_path (cwd e) ''metrics'') ''final-measurements.json'',
            Json_results
              \<lparr>rd_metadata =
                 \<lparr>md_timestamp = toISOString e 0,
                  md_runsPerPage = n,
                  md_measurementType = ''cold-load'',
                  md_networkCondition =
                    (case ?rs of [] \<Rightarrow> JStr c
                     | r # _ \<Rightarrow> or_else (opt_getprop r ''networkCondition'') (JStr c)),
                  md_chromeVersion =
                    (case ?rs of [] \<Rightarrow> JStr ''unknown''
                     | r # _ \<Rightarrow> or_else (opt_getprop r ''chromeVersion'') (JStr ''unknown'')),
                  md_compressionType =
                    (case ?rs of [] \<Rightarrow> JStr ''gzip''
                     | r # _ \<Rightarrow> or_else (opt_getprop r ''compressionType'') (JStr ''gzip''))\<rparr>,
               rd_results = ?rs\<rparr>) # rest
         \<and> (rest = []
            \<or> (\<exists>written legacy. rest =
                 [(join_path (join_path (cwd e) ''metrics'') ''final-measurements.md'', Markdown written),
                  (join_path (join_path (cwd e) ''metrics'') ''bundle-summary.json'', Json_legacy legacy)]))"
  proof (cases "report_markdown e n ?rs ?failed")
    case None
    then show ?thesis
      unfolding w writes_generateReports
      by (simp add: resultsData_def first_or_cases report_paths)
  next
    case (Some written)
    then obtain legacy where "legacySummary e ?rs = Some legacy"
      using report_markdown_legacy by fastforce
    with Some show ?thesis
      unfolding w writes_generateReports
      by (simp add: resultsData_def first_or_cases report_paths)
  qed
  have b: "drop 1 (writes (fst (main e))) =
             [(join_path (join_path (cwd e) ''metrics'') ''final-measurements.md'',
               Markdown
                 (report_head_text e n records
                  @ table_text e Board (page_rows Board records)
                  @ table_text e Home (page_rows Home records)
                  @ (if ?failed = [] then []
                     else ''## Failed Measurements\<newline>\<newline>The following frameworks failed to measure: ''
                          @ comma_list ?failed @ ''\<newline>\<newline>''))),
              (join_path (join_path (cwd e) ''metrics'') ''bundle-summary.json'',
               Json_legacy
                 \<lparr>ls_timestamp = toISOString e 2,
                  ls_note = ''Bundle sizes use raw (uncompressed) as primary, compressed in parentheses'',
                  ls_boardPage = map legacy_text (page_rows Board records),
                  ls_homePage = map legacy_text (page_rows Home records)\<rparr>)]"
    if conf: "list_all2 (\<lambda>v a. decode v = Some a) ?rs records"
    unfolding w writes_generateReports
    by (simp add: report_markdown_conforming [OF conf] legacySummary_conforming [OF conf]
        report_paths failed_section_text)
  have o: "\<exists>before after. fst (main e) = before @ after
           \<and> execs before = map (measure_command e n c) FRAMEWORKS \<and> writes before = []
           \<and> execs after = [] \<and> writes after = writes (fst (main e))"
    by (rule exI [of _ "preamble n c @ concat (map (measure_events e n c) FRAMEWORKS)"],
        rule exI [of _ "generateReports e n c ?rs ?failed"])
       (simp add: m execs_append writes_append execs_preamble writes_preamble
          execs_measure_events writes_measure_events execs_generateReports)
  have r: "allResults (measureAll e n c FRAMEWORKS \<lparr>allResults = [], failedFrameworks = [], m_trace = t\<rparr>)
         = ?rs"
    by (simp add: measureAll_allResults)
  have f: "failedFrameworks (measureAll e n c FRAMEWORKS \<lparr>allResults = [], failedFrameworks = [], m_trace = t\<rparr>)
         = ?failed"
    by (simp add: measureAll_failed)
  from a b o r f show ?thesis by blast
qed

text \<open>
  The claim as first stated fails: in this run every subprocess has run, Marko has printed
  a record whose \<open>performanceScore.stddev\<close> is \<open>null\<close>, and only the JSON results are
  written before the error is printed.
\<close>

theorem reports_not_all_written:
  "execs (fst (main sample_env_null_stddev))
     = map (measure_command sample_env_null_stddev 10 ''4g'') FRAMEWORKS
   \<and> map fst (writes (fst (main sample_env_null_stddev)))
        = [''/repo/metrics/final-measurements.json'']
   \<and> last (fst (main sample_env_null_stddev)) = Log L_uncaught_TypeError"
  by code_simp

text \<open>
  C5 (as amended). The script does not check what a subprocess prints. In a run that
  reaches the measurement loop the results of \<open>final-measurements.json\<close> are exactly the
  printed values, unchanged and in the order of \<open>FRAMEWORKS\<close>, whatever their page and
  fields, next to the metadata (timestamp, runs per page, measurement type, network
  condition, Chrome version, compression type). When every printed value conforms to
  \<open>AggregatedStats\<close> (a framework name, page \<open>home\<close> or \<open>board\<close>, summaries with the six
  numeric fields), each record is in exactly one of the two page lists of the legacy
  summary, with its framework name and its medians unchanged, so the two lists together are
  as long as the results.
\<close>

theorem result_shape_preserved:
  assumes "parseArgs e (argv e) 10 ''4g'' = Inr (n, c)"
    and "\<forall>fw \<in> set FRAMEWORKS. checkBuildExists e fw"
  shows "written_results (fst (main e)) =
           concat (map (\<lambda>fw. case try_measure e n c fw of None \<Rightarrow> [] | Some printed \<Rightarrow> printed)
                    FRAMEWORKS)
     \<and> (\<exists>md rest. writes (fst (main e)) =
           (join_path (join_path (cwd e) ''metrics'') ''final-measurements.json'',
            Json_results \<lparr>rd_metadata = md, rd_results = written_results (fst (main e))\<rparr>) # rest
         \<and> md_timestamp md = toISOString e 0
         \<and> md_runsPerPage md = n
         \<and> md_networkCondition md =
             (case written_results (fst (main e)) of [] \<Rightarrow> JStr c
              | r # _ \<Rightarrow> or_else (opt_getprop r ''networkCondition'') (JStr c))
         \<and> md_chromeVersion md =
             (case written_results (fst (main e)) of [] \<Rightarrow> JStr ''unknown''
              | r # _ \<Rightarrow> or_else (opt_getprop r ''chromeVersion'') (JStr ''unknown''))
         \<and> md_compressionType md =
             (case written_results (fst (main e)) of [] \<Rightarrow> JStr ''gzip''
              | r # _ \<Rightarrow> or_else (opt_getprop r ''compressionType'') (JStr ''gzip'')))
     \<and> (list_all2 (\<lambda>v a. decode v = Some a) (written_results (fst (main e))) records
         \<longrightarrow> (join_path (join_path (cwd e) ''metrics'') ''bundle-summary.json'',
              Json_legacy
                \<lparr>ls_timestamp = toISOString e 2,
                 ls_note = ''Bundle sizes use raw (uncompressed) as primary, compressed in parentheses'',
                 ls_boardPage = map legacy_text (page_rows Board records),
                 ls_homePage = map legacy_text (page_rows Home records)\<rparr>)
               \<in> set (writes (fst (main e)))
             \<and> length (page_rows Board records) + length (page_rows Home records)
                 = length (written_results (fst (main e))))"
proof -
  note w = writes_main_built [OF assms]
  note wr = written_results_main_built [OF assms]
  let ?rs = "measured_results e n c FRAMEWORKS"
  let ?failed = "failed_names e n c FRAMEWORKS"
  have a: "written_results (fst (main e)) =
           concat (map (\<lambda>fw. case try_measure e n c fw of None \<Rightarrow> [] | Some printed \<Rightarrow> printed)
                    FRAMEWORKS)"
    by (simp add: wr measured_results_def)
  have b: "\<exists>md rest. writes (fst (main e)) =
           (join_path (join_path (cwd e) ''metrics'') ''final-measurements.json'',
            Json_results \<lparr>rd_metadata = md, rd_results = written_results (fst (main e))\<rparr>) # rest
         \<and> md_timestamp md = toISOString e 0
         \<and> md_runsPerPage md = n
         \<and> md_networkCondition md =
             (case written_results (fst (main e)) of [] \<Rightarrow> JStr c
              | r # _ \<Rightarrow> or_else (opt_getprop r ''networkCondition'') (JStr c))
         \<and> md_chromeVersion md =
             (case written_results (fst (main e)) of [] \<Rightarrow> JStr ''unknown''
              | r # _ \<Rightarrow> or_else (opt_getprop r ''chromeVersion'') (JStr ''unknown''))
         \<and> md_compressionType md =
             (case written_results (fst (main e)) of [] \<Rightarrow> JStr ''gzip''
              | r # _ \<Rightarrow> or_else (opt_getprop r ''compressionType'') (JStr ''gzip''))"
    unfolding wr w writes_generateReports
    by (intro exI [of _ "rd_metadata (resultsData e n c ?rs)"])
       (simp add: resultsData_def first_or_cases report_paths)
  have d: "(join_path (join_path (cwd e) ''metrics'') ''bundle-summary.json'',
              Json_legacy
                \<lparr>ls_timestamp = toISOString e 2,
                 ls_note = ''Bundle sizes use raw (uncompressed) as primary, compressed in parentheses'',
                 ls_boardPage = map legacy_text (page_rows Board records),
                 ls_homePage = map legacy_text (page_rows Home records)\<rparr>)
               \<in> set (writes (fst (main e)))
             \<and> length (page_rows Board records) + length (page_rows Home records)
                 = length (written_results (fst (main e)))"
    if conf: "list_all2 (\<lambda>v a. decode v = Some a) (written_results (fst (main e))) records"
  proof -
    from conf have conf': "list_all2 (\<lambda>v a. decode v = Some a) ?rs records"
      by (simp add: wr)
    have "page a = Board \<longleftrightarrow> \<not> page a = Home" for a :: AggregatedStats
      by (cases "page a") simp_all
    then have "filter (\<lambda>a. page a = Board) records = filter (\<lambda>a. \<not> page a = Home) records"
      by (intro filter_cong refl)
    then have "length (page_rows Board records) + length (page_rows Home records) = length records"
      using sum_length_filter_compl [of "\<lambda>a. page a = Home" records] by simp
    moreover have "length records = length (written_results (fst (main e)))"
      using list_all2_lengthD [OF conf] by simp
    ultimately show ?thesis
      unfolding w writes_generateReports
      by (simp add: report_markdown_conforming [OF conf'] legacySummary_conforming [OF conf']
          report_paths)
  qed
  from a b d show ?thesis by blast
qed

text \<open>
  The claim as first stated fails: in this run Marko prints a record whose page is
  \<open>other\<close>. The record is written to the JSON results as it is, and it is in neither page
  list of the legacy summary.
\<close>

theorem result_with_other_page:
  "written_results (fst (main sample_env_other_page)) = [other_page_record]
   \<and> getprop other_page_record ''page'' = Some (JStr ''other'')
   \<and> decode other_page_record = None
   \<and> legacySummary sample_env_other_page [other_page_record] =
       Some \<lparr>ls_timestamp = ''2025-01-01T00:00:02.000Z'',
             ls_note = ''Bundle sizes use raw (uncompressed) as primary, compressed in parentheses'',
             ls_boardPage = [], ls_homePage = []\<rparr>
   \<and> map fst (writes (fst (main sample_env_other_page))) =
       [''/repo/metrics/final-measurements.json'', ''/repo/metrics/final-measurements.md'',
        ''/repo/metrics/bundle-summary.json'']"
  by code_simp

lemma sample_measured:
  "measured_results (sample_env []) 10 ''4g'' FRAMEWORKS =
     [encode (sample_stats ''Marko'' Home 40960), encode (sample_stats ''Marko'' Board 51200)]"
  by code_simp

lemma sample_failed_names: "failed_names (sample_env []) 10 ''4g'' FRAMEWORKS = [''Nuxt'']"
  by code_simp

lemma sample_legacy_rows:
  "map legacy_text (page_rows Board [sample_stats ''Marko'' Home 40960, sample_stats ''Marko'' Board 51200])
     = [\<lparr>le_framework = JStr ''Marko'', le_jsUncompressed = JNum 51200, le_jsTransferred = JNum 12800,
          le_compressionRatio = JNum 75, le_requests = 0\<rparr>]"
  "map legacy_text (page_rows Home [sample_stats ''Marko'' Home 40960, sample_stats ''Marko'' Board 51200])
     = [\<lparr>le_framework = JStr ''Marko'', le_jsUncompressed = JNum 40960, le_jsTransferred = JNum 10240,
          le_compressionRatio = JNum 75, le_requests = 0\<rparr>]"
  by code_simp+

lemma sample_clock:
  "toISOString (sample_env []) 0 = ''2025-01-01T00:00:00.000Z''"
  "toISOString (sample_env []) 2 = ''2025-01-01T00:00:02.000Z''"
  by code_simp+

theorem reports_written_once_witness:
  "parseArgs (sample_env []) (argv (sample_env [])) 10 ''4g'' = Inr (10, ''4g'')
   \<and> list_all (checkBuildExists (sample_env [])) FRAMEWORKS
   \<and> list_all2 (\<lambda>v a. decode v = Some a) (measured_results (sample_env []) 10 ''4g'' FRAMEWORKS)
        [sample_stats ''Marko'' Home 40960, sample_stats ''Marko'' Board 51200]
   \<and> writes (fst (main (sample_env []))) =
       [(''/repo/metrics/final-measurements.json'',
         Json_results
           \<lparr>rd_metadata =
              \<lparr>md_timestamp = ''2025-01-01T00:00:00.000Z'', md_runsPerPage = 10,
               md_measurementType = ''cold-load'', md_networkCondition = JStr ''4g'',
               md_chromeVersion = JStr ''131.0'', md_compressionType = JStr ''br''\<rparr>,
            rd_results = [encode (sample_stats ''Marko'' Home 40960),
                          encode (sample_stats ''Marko'' Board 51200)]\<rparr>),
        (''/repo/metrics/final-measurements.md'',
         Markdown
                 (''# Framework Performance Comparison\<newline>''
                  @ ''\<newline>''
                  @ ''*Measured: 2025-01-01T00:00:01.000Z*\<newline>''
                  @ ''\<newline>''
                  @ ''## Methodology\<newline>''
                  @ ''\<newline>''
                  @ ''- **Runs per page**: 10\<newline>''
                  @ ''- **Measurement type**: Cold-load (cache cleared between runs)\<newline>''
                  @ ''- **Device**: Mobile (Pixel 5 emulation)\<newline>''
                  @ ''- **Network**: 4G throttling (10 Mbps down, 40ms RTT)\<newline>''
                  @ ''- **CPU**: 1x (no throttling, to isolate bundle size impact)\<newline>''
                  @ ''- **Lighthouse version**: 131.0\<newline>''
                  @ ''- **Compression**: br\<newline>''
                  @ ''\<newline>''
                  @ ''## Board Page Performance\<newline>''
                  @ ''\<newline>''
                  @ ''Sorted by raw bundle size (smallest first):\<newline>''
                  @ ''\<newline>''
                  @ ''| Framework | Raw (kB) | Compressed (kB) | Ratio | Perf Score | FCP (ms) | LCP (ms) |\<newline>''
                  @ ''|-----------|----------|----------------|-------|------------|----------|----------|\<newline>''
                  @ ''| Marko | 50.0 '' @ [CHR 0xC2, CHR 0xB1] @ ''0.0 | 12.5 '' @ [CHR 0xC2, CHR 0xB1] @ ''0.0 | 75% | 98 '' @ [CHR 0xC2, CHR 0xB1] @ ''2.0 | 812 '' @ [CHR 0xC2, CHR 0xB1] @ ''2 | 1040 '' @ [CHR 0xC2, CHR 0xB1] @ ''2 |\<newline>''
                  @ ''\<newline>''
                  @ ''**Explanation:**\<newline>''
                  @ ''- **Raw**: Uncompressed bundle size (actual code volume, more consistent for comparison)\<newline>''
                  @ ''- **Compressed**: Bytes transferred over network (what users download)\<newline>''
                  @ ''- **Ratio**: Percentage saved by compression (higher is better compression)\<newline>''
                  @ ''- Values show median '' @ [CHR 0xC2, CHR 0xB1] @ ''std dev from 10 measurement runs\<newline>''
                  @ ''- Compression type: br\<newline>''
                  @ ''\<newline>''
                  @ ''## Home Page Performance\<newline>''
                  @ ''\<newline>''
                  @ ''Sorted by raw bundle size (smallest first):\<newline>''
                  @ ''\<newline>''
                  @ ''| Framework | Raw (kB) | Compressed (kB) | Ratio | Perf Score | FCP (ms) | LCP (ms) |\<newline>''
                  @ ''|-----------|----------|----------------|-------|------------|----------|----------|\<newline>''
                  @ ''| Marko | 40.0 '' @ [CHR 0xC2, CHR 0xB1] @ ''0.0 | 10.0 '' @ [CHR 0xC2, CHR 0xB1] @ ''0.0 | 75% | 98 '' @ [CHR 0xC2, CHR 0xB1] @ ''2.0 | 812 '' @ [CHR 0xC2, CHR 0xB1] @ ''2 | 1040 '' @ [CHR 0xC2, CHR 0xB1] @ ''2 |\<newline>''
                  @ ''\<newline>''
                  @ ''**Explanation:**\<newline>''
                  @ ''- **Raw**: Uncompressed bundle size (actual code volume, more consistent for comparison)\<newline>''
                  @ ''- **Compressed**: Bytes transferred over network (what users download)\<newline>''
                  @ ''- **Ratio**: Percentage saved by compression (higher is better compression)\<newline>''
                  @ ''- Values show median '' @ [CHR 0xC2, CHR 0xB1] @ ''std dev from 10 measurement runs\<newline>''
                  @ ''- Compression type: br\<newline>''
                  @ ''\<newline>''
                  @ ''## Failed Measurements\<newline>''
                  @ ''\<newline>''
                  @ ''The following frameworks failed to measure: Nuxt\<newline>''
                  @ ''\<newline>'')),
        (''/repo/metrics/bundle-summary.json'',
         Json_legacy
           \<lparr>ls_timestamp = ''2025-01-01T00:00:02.000Z'',
            ls_note = ''Bundle sizes use raw (uncompressed) as primary, compressed in parentheses'',
            ls_boardPage =
              [\<lparr>le_framework = JStr ''Marko'', le_jsUncompressed = JNum 51200,
                le_jsTransferred = JNum 12800, le_compressionRatio = JNum 75, le_requests = 0\<rparr>],
            ls_homePage =
              [\<lparr>le_framework = JStr ''Marko'', le_jsUncompressed = JNum 40960,
                le_jsTransferred = JNum 10240, le_compressionRatio = JNum 75, le_requests = 0\<rparr>]\<rparr>)]"
proof -
  have conf: "list_all2 (\<lambda>v a. decode v = Some a) (measured_results (sample_env []) 10 ''4g'' FRAMEWORKS)
        [sample_stats ''Marko'' Home 40960, sample_stats ''Marko'' Board 51200]"
    unfolding sample_measured by (rule sample_conforming)
  note t = reports_written_once [OF sample_parse sample_built,
      of "[sample_stats ''Marko'' Home 40960, sample_stats ''Marko'' Board 51200]" "[]"]
  from t obtain rest where
    w: "writes (fst (main (sample_env []))) =
       (join_path (join_path (cwd (sample_env [])) ''metrics'') ''final-measurements.json'',
            Json_results
              \<lparr>rd_metadata =
                 \<lparr>md_timestamp = toISOString (sample_env []) 0,
                  md_runsPerPage = 10,
                  md_measurementType = ''cold-load'',
                  md_networkCondition =
                    (case measured_results (sample_env []) 10 ''4g'' FRAMEWORKS of [] \<Rightarrow> JStr ''4g''
                     | r # _ \<Rightarrow> or_else (opt_getprop r ''networkCondition'') (JStr ''4g'')),
                  md_chromeVersion =
                    (case measured_results (sample_env []) 10 ''4g'' FRAMEWORKS of [] \<Rightarrow> JStr ''unknown''
                     | r # _ \<Rightarrow> or_else (opt_getprop r ''chromeVersion'') (JStr ''unknown'')),
                  md_compressionType =
                    (case measured_results (sample_env []) 10 ''4g'' FRAMEWORKS of [] \<Rightarrow> JStr ''gzip''
                     | r # _ \<Rightarrow> or_else (opt_getprop r ''compressionType'') (JStr ''gzip''))\<rparr>,
               rd_results = measured_results (sample_env []) 10 ''4g'' FRAMEWORKS\<rparr>) # rest"
    by blast
  from t conf have
    d: "drop 1 (writes (fst (main (sample_env [])))) =
             [(join_path (join_path (cwd (sample_env [])) ''metrics'') ''final-measurements.md'',
               Markdown
                 (report_head_text (sample_env []) 10 [sample_stats ''Marko'' Home 40960, sample_stats ''Marko'' Board 51200]
                  @ table_text (sample_env []) Board (page_rows Board [sample_stats ''Marko'' Home 40960, sample_stats ''Marko'' Board 51200])
                  @ table_text (sample_env []) Home (page_rows Home [sample_stats ''Marko'' Home 40960, sample_stats ''Marko'' Board 51200])
                  @ (if failed_names (sample_env []) 10 ''4g'' FRAMEWORKS = [] then []
                     else ''## Failed Measurements\<newline>\<newline>The following frameworks failed to measure: ''
                          @ comma_list (failed_names (sample_env []) 10 ''4g'' FRAMEWORKS) @ ''\<newline>\<newline>''))),
              (join_path (join_path (cwd (sample_env [])) ''metrics'') ''bundle-summary.json'',
               Json_legacy
                 \<lparr>ls_timestamp = toISOString (sample_env []) 2,
                  ls_note = ''Bundle sizes use raw (uncompressed) as primary, compressed in parentheses'',
                  ls_boardPage = map legacy_text (page_rows Board [sample_stats ''Marko'' Home 40960, sample_stats ''Marko'' Board 51200]),
                  ls_homePage = map legacy_text (page_rows Home [sample_stats ''Marko'' Home 40960, sample_stats ''Marko'' Board 51200])\<rparr>)]"
    by blast
  have j: "(join_path (join_path (cwd (sample_env [])) ''metrics'') ''final-measurements.json'',
            Json_results
              \<lparr>rd_metadata =
                 \<lparr>md_timestamp = toISOString (sample_env []) 0,
                  md_runsPerPage = 10,
                  md_measurementType = ''cold-load'',
                  md_networkCondition =
                    (case measured_results (sample_env []) 10 ''4g'' FRAMEWORKS of [] \<Rightarrow> JStr ''4g''
                     | r # _ \<Rightarrow> or_else (opt_getprop r ''networkCondition'') (JStr ''4g'')),
                  md_chromeVersion =
                    (case measured_results (sample_env []) 10 ''4g'' FRAMEWORKS of [] \<Rightarrow> JStr ''unknown''
                     | r # _ \<Rightarrow> or_else (opt_getprop r ''chromeVersion'') (JStr ''unknown'')),
                  md_compressionType =
                    (case measured_results (sample_env []) 10 ''4g'' FRAMEWORKS of [] \<Rightarrow> JStr ''gzip''
                     | r # _ \<Rightarrow> or_else (opt_getprop r ''compressionType'') (JStr ''gzip''))\<rparr>,
               rd_results = measured_results (sample_env []) 10 ''4g'' FRAMEWORKS\<rparr>) =
       (''/repo/metrics/final-measurements.json'',
         Json_results
           \<lparr>rd_metadata =
              \<lparr>md_timestamp = ''2025-01-01T00:00:00.000Z'', md_runsPerPage = 10,
               md_measurementType = ''cold-load'', md_networkCondition = JStr ''4g'',
               md_chromeVersion = JStr ''131.0'', md_compressionType = JStr ''br''\<rparr>,
            rd_results = [encode (sample_stats ''Marko'' Home 40960),
                          encode (sample_stats ''Marko'' Board 51200)]\<rparr>)"
    by code_simp
  have l: "[(join_path (join_path (cwd (sample_env [])) ''metrics'') ''final-measurements.md'',
               Markdown
                 (report_head_text (sample_env []) 10 [sample_stats ''Marko'' Home 40960, sample_stats ''Marko'' Board 51200]
                  @ table_text (sample_env []) Board (page_rows Board [sample_stats ''Marko'' Home 40960, sample_stats ''Marko'' Board 51200])
                  @ table_text (sample_env []) Home (page_rows Home [sample_stats ''Marko'' Home 40960, sample_stats ''Marko'' Board 51200])
                  @ (if failed_names (sample_env []) 10 ''4g'' FRAMEWORKS = [] then []
                     else ''## Failed Measurements\<newline>\<newline>The following frameworks failed to measure: ''
                          @ comma_list (failed_names (sample_env []) 10 ''4g'' FRAMEWORKS) @ ''\<newline>\<newline>''))),
              (join_path (join_path (cwd (sample_env [])) ''metrics'') ''bundle-summary.json'',
               Json_legacy
                 \<lparr>ls_timestamp = toISOString (sample_env []) 2,
                  ls_note = ''Bundle sizes use raw (uncompressed) as primary, compressed in parentheses'',
                  ls_boardPage = map legacy_text (page_rows Board [sample_stats ''Marko'' Home 40960, sample_stats ''Marko'' Board 51200]),
                  ls_homePage = map legacy_text (page_rows Home [sample_stats ''Marko'' Home 40960, sample_stats ''Marko'' Board 51200])\<rparr>)] =
       [(''/repo/metrics/final-measurements.md'',
         Markdown
                 (''# Framework Performance Comparison\<newline>''
                  @ ''\<newline>''
                  @ ''*Measured: 2025-01-01T00:00:01.000Z*\<newline>''
                  @ ''\<newline>''
                  @ ''## Methodology\<newline>''
                  @ ''\<newline>''
                  @ ''- **Runs per page**: 10\<newline>''
                  @ ''- **Measurement type**: Cold-load (cache cleared between runs)\<newline>''
                  @ ''- **Device**: Mobile (Pixel 5 emulation)\<newline>''
                  @ ''- **Network**: 4G throttling (10 Mbps down, 40ms RTT)\<newline>''
                  @ ''- **CPU**: 1x (no throttling, to isolate bundle size impact)\<newline>''
                  @ ''- **Lighthouse version**: 131.0\<newline>''
                  @ ''- **Compression**: br\<newline>''
                  @ ''\<newline>''
                  @ ''## Board Page Performance\<newline>''
                  @ ''\<newline>''
                  @ ''Sorted by raw bundle size (smallest first):\<newline>''
                  @ ''\<newline>''
                  @ ''| Framework | Raw (kB) | Compressed (kB) | Ratio | Perf Score | FCP (ms) | LCP (ms) |\<newline>''
                  @ ''|-----------|----------|----------------|-------|------------|----------|----------|\<newline>''
                  @ ''| Marko | 50.0 '' @ [CHR 0xC2, CHR 0xB1] @ ''0.0 | 12.5 '' @ [CHR 0xC2, CHR 0xB1] @ ''0.0 | 75% | 98 '' @ [CHR 0xC2, CHR 0xB1] @ ''2.0 | 812 '' @ [CHR 0xC2, CHR 0xB1] @ ''2 | 1040 '' @ [CHR 0xC2, CHR 0xB1] @ ''2 |\<newline>''
                  @ ''\<newline>''
                  @ ''**Explanation:**\<newline>''
                  @ ''- **Raw**: Uncompressed bundle size (actual code volume, more consistent for comparison)\<newline>''
                  @ ''- **Compressed**: Bytes transferred over network (what users download)\<newline>''
                  @ ''- **Ratio**: Percentage saved by compression (higher is better compression)\<newline>''
                  @ ''- Values show median '' @ [CHR 0xC2, CHR 0xB1] @ ''std dev from 10 measurement runs\<newline>''
                  @ ''- Compression type: br\<newline>''
                  @ ''\<newline>''
                  @ ''## Home Page Performance\<newline>''
                  @ ''\<newline>''
                  @ ''Sorted by raw bundle size (smallest first):\<newline>''
                  @ ''\<newline>''
                  @ ''| Framework | Raw (kB) | Compressed (kB) | Ratio | Perf Score | FCP (ms) | LCP (ms) |\<newline>''
                  @ ''|-----------|----------|----------------|-------|------------|----------|----------|\<newline>''
                  @ ''| Marko | 40.0 '' @ [CHR 0xC2, CHR 0xB1] @ ''0.0 | 10.0 '' @ [CHR 0xC2, CHR 0xB1] @ ''0.0 | 75% | 98 '' @ [CHR 0xC2, CHR 0xB1] @ ''2.0 | 812 '' @ [CHR 0xC2, CHR 0xB1] @ ''2 | 1040 '' @ [CHR 0xC2, CHR 0xB1] @ ''2 |\<newline>''
                  @ ''\<newline>''
                  @ ''**Explanation:**\<newline>''
                  @ ''- **Raw**: Uncompressed bundle size (actual code volume, more consistent for comparison)\<newline>''
                  @ ''- **Compressed**: Bytes transferred over network (what users download)\<newline>''
                  @ ''- **Ratio**: Percentage saved by compression (higher is better compression)\<newline>''
                  @ ''- Values show median '' @ [CHR 0xC2, CHR 0xB1] @ ''std dev from 10 measurement runs\<newline>''
                  @ ''- Compression type: br\<newline>''
                  @ ''\<newline>''
                  @ ''## Failed Measurements\<newline>''
                  @ ''\<newline>''
                  @ ''The following frameworks failed to measure: Nuxt\<newline>''
                  @ ''\<newline>'')),
        (''/repo/metrics/bundle-summary.json'',
         Json_legacy
           \<lparr>ls_timestamp = ''2025-01-01T00:00:02.000Z'',
            ls_note = ''Bundle sizes use raw (uncompressed) as primary, compressed in parentheses'',
            ls_boardPage =
              [\<lparr>le_framework = JStr ''Marko'', le_jsUncompressed = JNum 51200,
                le_jsTransferred = JNum 12800, le_compressionRatio = JNum 75, le_requests = 0\<rparr>],
            ls_homePage =
              [\<lparr>le_framework = JStr ''Marko'', le_jsUncompressed = JNum 40960,
                le_jsTransferred = JNum 10240, le_compressionRatio = JNum 75, le_requests = 0\<rparr>]\<rparr>)]"
    by code_simp
  from d have r: "rest =
       [(''/repo/metrics/final-measurements.md'',
         Markdown
                 (''# Framework Performance Comparison\<newline>''
                  @ ''\<newline>''
                  @ ''*Measured: 2025-01-01T00:00:01.000Z*\<newline>''
                  @ ''\<newline>''
                  @ ''## Methodology\<newline>''
                  @ ''\<newline>''
                  @ ''- **Runs per page**: 10\<newline>''
                  @ ''- **Measurement type**: Cold-load (cache cleared between runs)\<newline>''
                  @ ''- **Device**: Mobile (Pixel 5 emulation)\<newline>''
                  @ ''- **Network**: 4G throttling (10 Mbps down, 40ms RTT)\<newline>''
                  @ ''- **CPU**: 1x (no throttling, to isolate bundle size impact)\<newline>''
                  @ ''- **Lighthouse version**: 131.0\<newline>''
                  @ ''- **Compression**: br\<newline>''
                  @ ''\<newline>''
                  @ ''## Board Page Performance\<newline>''
                  @ ''\<newline>''
                  @ ''Sorted by raw bundle size (smallest first):\<newline>''
                  @ ''\<newline>''
                  @ ''| Framework | Raw (kB) | Compressed (kB) | Ratio | Perf Score | FCP (ms) | LCP (ms) |\<newline>''
                  @ ''|-----------|----------|----------------|-------|------------|----------|----------|\<newline>''
                  @ ''| Marko | 50.0 '' @ [CHR 0xC2, CHR 0xB1] @ ''0.0 | 12.5 '' @ [CHR 0xC2, CHR 0xB1] @ ''0.0 | 75% | 98 '' @ [CHR 0xC2, CHR 0xB1] @ ''2.0 | 812 '' @ [CHR 0xC2, CHR 0xB1] @ ''2 | 1040 '' @ [CHR 0xC2, CHR 0xB1] @ ''2 |\<newline>''
                  @ ''\<newline>''
                  @ ''**Explanation:**\<newline>''
                  @ ''- **Raw**: Uncompressed bundle size (actual code volume, more consistent for comparison)\<newline>''
                  @ ''- **Compressed**: Bytes transferred over network (what users download)\<newline>''
                  @ ''- **Ratio**: Percentage saved by compression (higher is better compression)\<newline>''
                  @ ''- Values show median '' @ [CHR 0xC2, CHR 0xB1] @ ''std dev from 10 measurement runs\<newline>''
                  @ ''- Compression type: br\<newline>''
                  @ ''\<newline>''
                  @ ''## Home Page Performance\<newline>''
                  @ ''\<newline>''
                  @ ''Sorted by raw bundle size (smallest first):\<newline>''
                  @ ''\<newline>''
                  @ ''| Framework | Raw (kB) | Compressed (kB) | Ratio | Perf Score | FCP (ms) | LCP (ms) |\<newline>''
                  @ ''|-----------|----------|----------------|-------|------------|----------|----------|\<newline>''
                  @ ''| Marko | 40.0 '' @ [CHR 0xC2, CHR 0xB1] @ ''0.0 | 10.0 '' @ [CHR 0xC2, CHR 0xB1] @ ''0.0 | 75% | 98 '' @ [CHR 0xC2, CHR 0xB1] @ ''2.0 | 812 '' @ [CHR 0xC2, CHR 0xB1] @ ''2 | 1040 '' @ [CHR 0xC2, CHR 0xB1] @ ''2 |\<newline>''
                  @ ''\<newline>''
                  @ ''**Explanation:**\<newline>''
                  @ ''- **Raw**: Uncompressed bundle size (actual code volume, more consistent for comparison)\<newline>''
                  @ ''- **Compressed**: Bytes transferred over network (what users download)\<newline>''
                  @ ''- **Ratio**: Percentage saved by compression (higher is better compression)\<newline>''
                  @ ''- Values show median '' @ [CHR 0xC2, CHR 0xB1] @ ''std dev from 10 measurement runs\<newline>''
                  @ ''- Compression type: br\<newline>''
                  @ ''\<newline>''
                  @ ''## Failed Measurements\<newline>''
                  @ ''\<newline>''
                  @ ''The following frameworks failed to measure: Nuxt\<newline>''
                  @ ''\<newline>'')),
        (''/repo/metrics/bundle-summary.json'',
         Json_legacy
           \<lparr>ls_timestamp = ''2025-01-01T00:00:02.000Z'',
            ls_note = ''Bundle sizes use raw (uncompressed) as primary, compressed in parentheses'',
            ls_boardPage =
              [\<lparr>le_framework = JStr ''Marko'', le_jsUncompressed = JNum 51200,
                le_jsTransferred = JNum 12800, le_compressionRatio = JNum 75, le_requests = 0\<rparr>],
            ls_homePage =
              [\<lparr>le_framework = JStr ''Marko'', le_jsUncompressed = JNum 40960,
                le_jsTransferred = JNum 10240, le_compressionRatio = JNum 75, le_requests = 0\<rparr>]\<rparr>)]"
    unfolding w l by simp
  show ?thesis
    using sample_parse sample_built_all conf w unfolding r j by blast
qed

theorem result_shape_preserved_witness:
  "parseArgs (sample_env []) (argv (sample_env [])) 10 ''4g'' = Inr (10, ''4g'')
   \<and> list_all (checkBuildExists (sample_env [])) FRAMEWORKS
   \<and> written_results (fst (main (sample_env []))) =
       [encode (sample_stats ''Marko'' Home 40960), encode (sample_stats ''Marko'' Board 51200)]
   \<and> list_all2 (\<lambda>v a. decode v = Some a) (written_results (fst (main (sample_env []))))
        [sample_stats ''Marko'' Home 40960, sample_stats ''Marko'' Board 51200]
   \<and> (''/repo/metrics/bundle-summary.json'',
       Json_legacy
         \<lparr>ls_timestamp = ''2025-01-01T00:00:02.000Z'',
          ls_note = ''Bundle sizes use raw (uncompressed) as primary, compressed in parentheses'',
          ls_boardPage =
            [\<lparr>le_framework = JStr ''Marko'', le_jsUncompressed = JNum 51200,
              le_jsTransferred = JNum 12800, le_compressionRatio = JNum 75, le_requests = 0\<rparr>],
          ls_homePage =
            [\<lparr>le_framework = JStr ''Marko'', le_jsUncompressed = JNum 40960,
              le_jsTransferred = JNum 10240, le_compressionRatio = JNum 75, le_requests = 0\<rparr>]\<rparr>)
       \<in> set (writes (fst (main (sample_env []))))"
proof -
  have tm: "concat (map (\<lambda>fw. case try_measure (sample_env []) 10 ''4g'' fw of
                             None \<Rightarrow> [] | Some printed \<Rightarrow> printed) FRAMEWORKS) =
       [encode (sample_stats ''Marko'' Home 40960), encode (sample_stats ''Marko'' Board 51200)]"
    using sample_measured by (simp add: measured_results_def)
  note t = result_shape_preserved [OF sample_parse sample_built,
      of "[sample_stats ''Marko'' Home 40960, sample_stats ''Marko'' Board 51200]"]
  from t have wr: "written_results (fst (main (sample_env []))) =
       [encode (sample_stats ''Marko'' Home 40960), encode (sample_stats ''Marko'' Board 51200)]"
    unfolding tm by blast
  have conf: "list_all2 (\<lambda>v a. decode v = Some a) (written_results (fst (main (sample_env []))))
        [sample_stats ''Marko'' Home 40960, sample_stats ''Marko'' Board 51200]"
    unfolding wr by (rule sample_conforming)
  from t conf have
    "(join_path (join_path (cwd (sample_env [])) ''metrics'') ''bundle-summary.json'',
       Json_legacy
         \<lparr>ls_timestamp = toISOString (sample_env []) 2,
          ls_note = ''Bundle sizes use raw (uncompressed) as primary, compressed in parentheses'',
          ls_boardPage = map legacy_text
            (page_rows Board [sample_stats ''Marko'' Home 40960, sample_stats ''Marko'' Board 51200]),
          ls_homePage = map legacy_text
            (page_rows Home [sample_stats ''Marko'' Home 40960, sample_stats ''Marko'' Board 51200])\<rparr>)
       \<in> set (writes (fst (main (sample_env []))))"
    by blast
  then show ?thesis
    unfolding sample_cwd sample_paths sample_clock sample_legacy_rows
    using sample_parse sample_built_all wr conf by blast
qed

end
